theory Spec2Isabelle
  imports Main "HOL-Library.Product_Lexorder" "HOL-Library.Monad_Syntax"
begin

section \<open>Client engine: items, groups and the Grouping Engine\<close>

text \<open>
  The client (index.html) is not among the sources; the plan documents only name its
  functions (\<open>groupedItems\<close>, \<open>handleGroupDrop\<close>). The definitions of this section
  follow the specification, sections 3 and 4.

  A calendar date is a triple (year, month, day); the lexicographic order on triples is
  the chronological one.
\<close>

type_synonym caldate = "int \<times> nat \<times> nat"

record item =
  iid :: int
  itext :: string
  completed :: bool
  createdAt :: string
  itype :: string
  category :: string
  priority :: string
  dueDate :: "caldate option"
  inotes :: string
  order :: int

datatype group_key = Overdue | OnDate caldate | NoDate

record filters =
  ftype :: "string option"
  fcategory :: "string option"
  showCompleted :: bool

record group =
  key :: group_key
  isToday :: bool
  isOverdue :: bool
  gitems :: "item list"

text \<open>
  Modelled from the spec: group-key derivation (section 3). An item with no due date
  belongs to no-date; an item due strictly before today belongs to the single overdue
  group; every other item belongs to the group of its own date. The spec groups a
  completed item "exactly like an incomplete one", so completion plays no part.
\<close>

definition groupKey :: "caldate \<Rightarrow> item \<Rightarrow> group_key" where
  "groupKey today it =
     (case dueDate it of
        None \<Rightarrow> NoDate
      | Some d \<Rightarrow> if d < today then Overdue else OnDate d)"

text \<open>
  Modelled from the spec: the filters of section 4.2 narrow by type, by category and by
  the showCompleted flag; completed items are hidden unless the flag is set.
\<close>

definition passes :: "filters \<Rightarrow> item \<Rightarrow> bool" where
  "passes f it \<longleftrightarrow>
     (case ftype f of None \<Rightarrow> True | Some t \<Rightarrow> itype it = t) \<and>
     (case fcategory f of None \<Rightarrow> True | Some c \<Rightarrow> category it = c) \<and>
     (showCompleted f \<or> \<not> completed it)"

text \<open>
  Modelled from the spec: within a group items ascend by \<open>order\<close>, ties broken by
  \<open>id\<close>.
\<close>

definition sortItems :: "item list \<Rightarrow> item list" where
  "sortItems xs = sort_key (\<lambda>it. (order it, iid it)) xs"

definition mkGroup :: "caldate \<Rightarrow> group_key \<Rightarrow> item list \<Rightarrow> group" where
  "mkGroup today k xs =
     \<lparr> key = k, isToday = (k = OnDate today), isOverdue = (k = Overdue),
       gitems = sortItems (filter (\<lambda>it. groupKey today it = k) xs) \<rparr>"

definition datesOf :: "caldate \<Rightarrow> item list \<Rightarrow> caldate list" where
  "datesOf today xs =
     sort (remdups (concat (map (\<lambda>it. case groupKey today it of
                                        OnDate d \<Rightarrow> [d] | _ \<Rightarrow> []) xs)))"

text \<open>
  Modelled from the spec: \<open>groupAndFilter\<close> of section 4.2 (the client's
  \<open>groupedItems\<close>, whose code is not among the sources). The overdue group comes first
  if it has items, then one group per distinct date with items in ascending order, then
  the no-date group if it has items. The human-readable label of a group is
  presentation and is left out.
\<close>

definition groupAndFilter :: "caldate \<Rightarrow> item list \<Rightarrow> filters \<Rightarrow> group list" where
  "groupAndFilter today items f =
     (let visible = filter (passes f) items in
        (if \<exists>it \<in> set visible. groupKey today it = Overdue
         then [mkGroup today Overdue visible] else [])
        @ map (\<lambda>d. mkGroup today (OnDate d) visible) (datesOf today visible)
        @ (if \<exists>it \<in> set visible. groupKey today it = NoDate
           then [mkGroup today NoDate visible] else []))"

text \<open>
  The order of group keys the spec prescribes: overdue before every date, dates in
  chronological order, no-date after everything else.
\<close>

fun key_before :: "group_key \<Rightarrow> group_key \<Rightarrow> bool" where
  "key_before Overdue Overdue = False"
| "key_before Overdue _ = True"
| "key_before (OnDate d) (OnDate e) = (d < e)"
| "key_before (OnDate d) NoDate = True"
| "key_before (OnDate d) Overdue = False"
| "key_before NoDate _ = False"

section \<open>Client engine: Item Store, Reschedule intent and Sync Manager\<close>

text \<open>
  Modelled from the spec: the Item Store of section 4.1 (client code, not among the
  sources). The store is the list of items; \<open>setDueDate\<close> mutates the due date of the
  item with the given id and nothing else; \<open>snapshot\<close> and \<open>restore\<close> are restricted
  to the affected item, as section 4.4 allows.
\<close>

type_synonym item_store = "item list"

definition setDueDate :: "int \<Rightarrow> caldate option \<Rightarrow> item_store \<Rightarrow> item_store" where
  "setDueDate a d s = map (\<lambda>it. if iid it = a then it\<lparr>dueDate := d\<rparr> else it) s"

definition setOrder :: "int \<Rightarrow> int \<Rightarrow> item_store \<Rightarrow> item_store" where
  "setOrder a n s = map (\<lambda>it. if iid it = a then it\<lparr>order := n\<rparr> else it) s"

definition snapshot :: "int \<Rightarrow> item_store \<Rightarrow> item option" where
  "snapshot a s = find (\<lambda>it. iid it = a) s"

definition restore :: "int \<Rightarrow> item option \<Rightarrow> item_store \<Rightarrow> item_store" where
  "restore a snap s =
     (case snap of
        None \<Rightarrow> s
      | Some old \<Rightarrow> map (\<lambda>it. if iid it = a then old else it) s)"

text \<open>
  Modelled from the spec: the Reschedule intent of sections 4.1 and 4.3 (the client's
  \<open>handleGroupDrop\<close>, not among the sources). The destination group is the group an
  item with the new due date falls into; the item is appended to its end, one past the
  current maximum \<open>order\<close> of that group. For an empty destination group the spec
  names no maximum; the model starts such a group at 0.
\<close>

definition destKey :: "caldate \<Rightarrow> caldate option \<Rightarrow> group_key" where
  "destKey today d =
     (case d of None \<Rightarrow> NoDate
      | Some x \<Rightarrow> if x < today then Overdue else OnDate x)"

definition destGroup :: "caldate \<Rightarrow> caldate option \<Rightarrow> item_store \<Rightarrow> item list" where
  "destGroup today d s = filter (\<lambda>it. groupKey today it = destKey today d) s"

definition nextOrder :: "item list \<Rightarrow> int" where
  "nextOrder members =
     (case members of
        [] \<Rightarrow> 0
      | m # ms \<Rightarrow> fold (\<lambda>it acc. max (order it) acc) ms (order m) + 1)"

definition reschedule :: "caldate \<Rightarrow> int \<Rightarrow> caldate option \<Rightarrow> item_store \<Rightarrow> item_store" where
  "reschedule today a d s =
     setOrder a (nextOrder (destGroup today d s)) (setDueDate a d s)"

text \<open>
  Modelled from the spec: the Sync Manager of section 4.4 (client code, not among the
  sources). Every issued mutation carries the next sequence number of its item id and
  remembers the snapshot taken before the optimistic mutation. A response whose
  sequence number is not the latest issued for its item id is discarded; the response
  with the latest number confirms on success and restores the snapshot on failure.
\<close>

datatype outcome = Succeeded | Failed

record sync_state =
  store :: item_store
  latest :: "int \<Rightarrow> nat"
  pending :: "((int \<times> nat) \<times> item option) list"

definition issueReschedule :: "caldate \<Rightarrow> int \<Rightarrow> caldate option \<Rightarrow> sync_state \<Rightarrow> sync_state \<times> nat" where
  "issueReschedule today a d st =
     (let snap = snapshot a (store st);
          n = latest st a + 1
      in (\<lparr> store = reschedule today a d (store st),
            latest = (latest st)(a := n),
            pending = ((a, n), snap) # pending st \<rparr>, n))"

definition dropPending :: "int \<Rightarrow> nat \<Rightarrow> sync_state \<Rightarrow> sync_state" where
  "dropPending a n st = st\<lparr>pending := filter (\<lambda>e. fst e \<noteq> (a, n)) (pending st)\<rparr>"

definition deliver :: "int \<Rightarrow> nat \<Rightarrow> outcome \<Rightarrow> sync_state \<Rightarrow> sync_state" where
  "deliver a n r st =
     (if n \<noteq> latest st a then dropPending a n st
      else case r of
             Succeeded \<Rightarrow> dropPending a n st
           | Failed \<Rightarrow>
               (case map_of (pending st) (a, n) of
                  None \<Rightarrow> st
                | Some snap \<Rightarrow>
                    dropPending a n (st\<lparr>store := restore a snap (store st)\<rparr>)))"

text \<open>
  The scenario of the stale-response property: two reschedules of the same item are
  issued back to back, then the two responses arrive, either the first request's
  response first or the second's.
\<close>

definition twoReschedules ::
  "caldate \<Rightarrow> int \<Rightarrow> caldate option \<Rightarrow> caldate option \<Rightarrow> sync_state \<Rightarrow> sync_state \<times> nat \<times> nat" where
  "twoReschedules today a d1 d2 st =
     (let (st1, n1) = issueReschedule today a d1 st;
          (st2, n2) = issueReschedule today a d2 st1
      in (st2, n1, n2))"

definition firstThenSecond ::
  "caldate \<Rightarrow> int \<Rightarrow> caldate option \<Rightarrow> caldate option \<Rightarrow> outcome \<Rightarrow> outcome \<Rightarrow> sync_state \<Rightarrow> sync_state" where
  "firstThenSecond today a d1 d2 r1 r2 st =
     (let (st2, n1, n2) = twoReschedules today a d1 d2 st
      in deliver a n2 r2 (deliver a n1 r1 st2))"

definition secondThenFirst ::
  "caldate \<Rightarrow> int \<Rightarrow> caldate option \<Rightarrow> caldate option \<Rightarrow> outcome \<Rightarrow> outcome \<Rightarrow> sync_state \<Rightarrow> sync_state" where
  "secondThenFirst today a d1 d2 r1 r2 st =
     (let (st2, n1, n2) = twoReschedules today a d1 d2 st
      in deliver a n1 r1 (deliver a n2 r2 st2))"

definition dueDatesOf :: "int \<Rightarrow> item_store \<Rightarrow> caldate option list" where
  "dueDatesOf a s = map dueDate (filter (\<lambda>it. iid it = a) s)"

text \<open>Concrete items for the scenarios of section 8 of the spec.\<close>

definition demoItem :: "int \<Rightarrow> caldate option \<Rightarrow> int \<Rightarrow> item" where
  "demoItem i d n =
     \<lparr> iid = i, itext = ''t'', completed = False, createdAt = ''2026-02-16T08:00:00.000Z'',
       itype = ''task'', category = ''personal'', priority = ''medium'',
       dueDate = d, inotes = '''', order = n \<rparr>"

definition demoToday :: caldate where
  "demoToday = (2026, 2, 17)"

definition demoStore :: item_store where
  "demoStore = [demoItem 1 (Some (2026, 2, 16)) 0,
                demoItem 2 (Some (2026, 2, 17)) 0,
                demoItem 3 None 0]"

definition noFilters :: filters where
  "noFilters = \<lparr> ftype = None, fcategory = None, showCompleted = False \<rparr>"

definition demoSync :: sync_state where
  "demoSync = \<lparr> store = demoStore, latest = (\<lambda>_. 0), pending = [] \<rparr>"

section \<open>Server: JavaScript values, dates and JSON responses\<close>

text \<open>
  A request body is what \<open>express.json()\<close> hands to a route: a parsed JSON value,
  or \<open>undefined\<close> when the request carries no body. Numbers are integers here (ids
  and sort keys); fractional numbers are outside the model. \<open>JUndefined\<close> is also the
  value of a property that is absent.
\<close>

datatype jsval =
    JUndefined
  | JNull
  | JBool bool
  | JNum int
  | JStr string
  | JArr "jsval list"
  | JObj "(string \<times> jsval) list"

text \<open>Truthiness, as the operator \<open>||\<close> of the handlers tests it.\<close>

fun truthy :: "jsval \<Rightarrow> bool" where
  "truthy JUndefined = False"
| "truthy JNull = False"
| "truthy (JBool b) = b"
| "truthy (JNum n) = (n \<noteq> 0)"
| "truthy (JStr s) = (s \<noteq> [])"
| "truthy (JArr xs) = True"
| "truthy (JObj kvs) = True"

text \<open>\<open>v || d\<close> and \<open>v ?? d\<close>.\<close>

definition js_or :: "jsval \<Rightarrow> jsval \<Rightarrow> jsval" where
  "js_or v d = (if truthy v then v else d)"

definition js_nullish :: "jsval \<Rightarrow> jsval \<Rightarrow> jsval" where
  "js_nullish v d = (if v = JUndefined \<or> v = JNull then d else v)"

text \<open>
  Property access \<open>v.k\<close> for the property names the handlers read (id, text, completed,
  createdAt, type, category, priority, dueDate, notes, order). On \<open>undefined\<close> and
  \<open>null\<close> it throws a TypeError (\<open>None\<close>); an object yields the value stored under
  the key or \<open>undefined\<close>; every other value has none of these properties.
\<close>

fun property :: "jsval \<Rightarrow> string \<Rightarrow> jsval option" where
  "property JUndefined k = None"
| "property JNull k = None"
| "property (JObj kvs) k = Some (case map_of kvs k of None \<Rightarrow> JUndefined | Some v \<Rightarrow> v)"
| "property (JBool b) k = Some JUndefined"
| "property (JNum n) k = Some JUndefined"
| "property (JStr s) k = Some JUndefined"
| "property (JArr xs) k = Some JUndefined"

text \<open>\<open>Array.isArray(body) ? body : [body]\<close> of the create route.\<close>

definition as_item_list :: "jsval \<Rightarrow> jsval list" where
  "as_item_list body = (case body of JArr xs \<Rightarrow> xs | _ \<Rightarrow> [body])"

text \<open>
  \<open>for (const item of items)\<close> of the bulk route: an array is iterated; the objects
  the body parser can hand over are not iterable, and the loop header throws.
\<close>

definition iterate :: "jsval \<Rightarrow> jsval list option" where
  "iterate body = (case body of JArr xs \<Rightarrow> Some xs | _ \<Rightarrow> None)"

subsection \<open>Dates\<close>

text \<open>
  A JavaScript \<open>Date\<close>, by its UTC fields. \<open>toISOString\<close> follows ECMAScript: four
  digits for the years 0 to 9999, a sign and six digits otherwise. \<open>pad w n\<close> writes
  the \<open>w\<close> low decimal digits of \<open>n\<close>, which is \<open>padStart(w, '0')\<close> whenever \<open>n\<close>
  has at most \<open>w\<close> digits, as the fields of a valid date have.
\<close>

record jsdate =
  year :: int
  month :: nat
  day :: nat
  hours :: nat
  minutes :: nat
  seconds :: nat
  millis :: nat

definition digit :: "nat \<Rightarrow> char" where
  "digit n = char_of (48 + n mod 10)"

primrec pad :: "nat \<Rightarrow> nat \<Rightarrow> string" where
  "pad 0 n = []"
| "pad (Suc w) n = pad w (n div 10) @ [digit n]"

definition isoYear :: "int \<Rightarrow> string" where
  "isoYear y =
     (if 0 \<le> y \<and> y \<le> 9999 then pad 4 (nat y)
      else (if y < 0 then ''-'' else ''+'') @ pad 6 (nat \<bar>y\<bar>))"

definition toISOString :: "jsdate \<Rightarrow> string" where
  "toISOString d =
     isoYear (year d) @ ''-'' @ pad 2 (month d) @ ''-'' @ pad 2 (day d) @ ''T'' @
     pad 2 (hours d) @ '':'' @ pad 2 (minutes d) @ '':'' @ pad 2 (seconds d) @ ''.'' @
     pad 3 (millis d) @ ''Z''"

text \<open>\<open>s.split('T')[0]\<close>: the text before the first \<open>T\<close>.\<close>

definition beforeT :: "string \<Rightarrow> string" where
  "beforeT s = takeWhile (\<lambda>c. c \<noteq> CHR ''T'') s"

definition isDigit :: "char \<Rightarrow> bool" where
  "isDigit c \<longleftrightarrow> c \<in> set ''0123456789''"

text \<open>
  The calendar-date text \<open>YYYY-MM-DD\<close>, which is also the regular expression
  \<open>/^\d{4}-\d{2}-\d{2}$/\<close> of the validation schemas.
\<close>

definition isDateText :: "string \<Rightarrow> bool" where
  "isDateText s \<longleftrightarrow>
     (case s of
        [y1, y2, y3, y4, s1, m1, m2, s2, d1, d2] \<Rightarrow>
          isDigit y1 \<and> isDigit y2 \<and> isDigit y3 \<and> isDigit y4 \<and> s1 = CHR ''-'' \<and>
          isDigit m1 \<and> isDigit m2 \<and> s2 = CHR ''-'' \<and> isDigit d1 \<and> isDigit d2
      | _ \<Rightarrow> False)"

text \<open>Decimal text of a number, as \<open>String(n)\<close> writes an integer.\<close>

fun decimal :: "nat \<Rightarrow> string" where
  "decimal n = (if n < 10 then [digit n] else decimal (n div 10) @ [digit n])"

definition showInt :: "int \<Rightarrow> string" where
  "showInt i = (if i < 0 then ''-'' @ decimal (nat (- i)) else decimal (nat i))"

subsection \<open>Responses\<close>

text \<open>
  A response is a status and a JSON body; \<open>res.json(x)\<close> answers 200,
  \<open>res.status(n).json(x)\<close> answers \<open>n\<close>.
\<close>

record response =
  status :: nat
  rbody :: jsval

definition json :: "jsval \<Rightarrow> response" where
  "json x = \<lparr> status = 200, rbody = x \<rparr>"

definition status_json :: "nat \<Rightarrow> jsval \<Rightarrow> response" where
  "status_json n x = \<lparr> status = n, rbody = x \<rparr>"

definition error_body :: "string \<Rightarrow> jsval" where
  "error_body msg = JObj [(''error'', JStr msg)]"

definition success_body :: jsval where
  "success_body = JObj [(''success'', JBool True)]"

text \<open>The property names of a JSON object, in order.\<close>

definition keys_of :: "jsval \<Rightarrow> string list" where
  "keys_of v = (case v of JObj kvs \<Rightarrow> map fst kvs | _ \<Rightarrow> [])"

section \<open>Server: the items table and its statements\<close>

text \<open>
  A row of the table \<open>items\<close>, as \<open>initDB\<close> creates it (server.js, CREATE TABLE and
  ALTER TABLE): \<open>id BIGINT PRIMARY KEY\<close>, \<open>text TEXT NOT NULL\<close>, \<open>completed BOOLEAN\<close>,
  \<open>created_at TIMESTAMPTZ\<close>, \<open>type VARCHAR(10) NOT NULL\<close>,
  \<open>category VARCHAR(100) NOT NULL\<close>, \<open>priority VARCHAR(10) NOT NULL\<close>, \<open>due_date DATE\<close>,
  \<open>notes TEXT\<close>, \<open>sort_order INTEGER\<close>, \<open>user_id TEXT\<close>. A nullable column is an
  option. The columns whose names Isabelle reserves or the client record uses carry the
  prefix \<open>c_\<close>. Date and timestamp columns hold the \<open>Date\<close> object the driver hands
  to the handler for them.
\<close>

record row =
  c_id :: int
  c_text :: string
  c_completed :: "bool option"
  created_at :: "jsdate option"
  c_type :: string
  c_category :: string
  c_priority :: string
  due_date :: "jsdate option"
  c_notes :: "string option"
  sort_order :: "int option"
  user_id :: "string option"

type_synonym table = "row list"

text \<open>
  What is not code of the repository is a parameter: the clock (\<open>new Date()\<close>,
  \<open>NOW()\<close>), JavaScript's \<open>new Date(v)\<close> (\<open>None\<close> is an invalid date), and what the
  input functions of PostgreSQL make of a parameter that is not of the column's own JSON
  type (\<open>None\<close>: the statement is rejected). Date and timestamp columns have no JSON
  type of their own, so every text sent for them goes through the input function.
\<close>

record pgenv =
  clock :: jsdate
  date_parse :: "jsval \<Rightarrow> jsdate option"
  text_in :: "jsval \<Rightarrow> string option"
  bool_in :: "jsval \<Rightarrow> bool option"
  int_in :: "jsval \<Rightarrow> int option"
  date_in :: "jsval \<Rightarrow> jsdate option"
  timestamptz_in :: "jsval \<Rightarrow> jsdate option"

text \<open>
  Binding one parameter to a column type. The outer \<open>None\<close> is a rejected statement
  (the query throws), \<open>Some None\<close> is SQL NULL: the driver sends \<open>undefined\<close> and
  \<open>null\<close> as NULL. A text longer than a \<open>VARCHAR(n)\<close> column is rejected unless the
  excess characters are all spaces, which are cut off.
\<close>

definition bind_text :: "pgenv \<Rightarrow> jsval \<Rightarrow> string option option" where
  "bind_text env v =
     (case v of
        JUndefined \<Rightarrow> Some None
      | JNull \<Rightarrow> Some None
      | JStr s \<Rightarrow> Some (Some s)
      | _ \<Rightarrow> map_option Some (text_in env v))"

definition bind_varchar :: "pgenv \<Rightarrow> nat \<Rightarrow> jsval \<Rightarrow> string option option" where
  "bind_varchar env n v =
     (case bind_text env v of
        None \<Rightarrow> None
      | Some None \<Rightarrow> Some None
      | Some (Some s) \<Rightarrow>
          if list_all (\<lambda>c. c = CHR '' '') (drop n s) then Some (Some (take n s)) else None)"

definition bind_bool :: "pgenv \<Rightarrow> jsval \<Rightarrow> bool option option" where
  "bind_bool env v =
     (case v of
        JUndefined \<Rightarrow> Some None
      | JNull \<Rightarrow> Some None
      | JBool b \<Rightarrow> Some (Some b)
      | _ \<Rightarrow> map_option Some (bool_in env v))"

definition in_range :: "nat \<Rightarrow> int \<Rightarrow> bool" where
  "in_range bits n \<longleftrightarrow> - (2 ^ (bits - 1)) \<le> n \<and> n < 2 ^ (bits - 1)"

definition bind_int :: "pgenv \<Rightarrow> nat \<Rightarrow> jsval \<Rightarrow> int option option" where
  "bind_int env bits v =
     (case v of
        JUndefined \<Rightarrow> Some None
      | JNull \<Rightarrow> Some None
      | _ \<Rightarrow>
         (case (case v of JNum n \<Rightarrow> Some n | _ \<Rightarrow> int_in env v) of
            None \<Rightarrow> None
          | Some n \<Rightarrow> if in_range bits n then Some (Some n) else None))"

definition bind_date :: "pgenv \<Rightarrow> jsval \<Rightarrow> jsdate option option" where
  "bind_date env v =
     (case v of
        JUndefined \<Rightarrow> Some None
      | JNull \<Rightarrow> Some None
      | _ \<Rightarrow> map_option Some (date_in env v))"

definition bind_timestamptz :: "pgenv \<Rightarrow> jsval \<Rightarrow> jsdate option option" where
  "bind_timestamptz env v =
     (case v of
        JUndefined \<Rightarrow> Some None
      | JNull \<Rightarrow> Some None
      | _ \<Rightarrow> map_option Some (timestamptz_in env v))"

text \<open>The parameters of an INSERT or UPDATE of the items routes, and their bound values.\<close>

record item_params =
  p_id :: jsval
  p_text :: jsval
  p_completed :: jsval
  p_created_at :: jsval
  p_type :: jsval
  p_category :: jsval
  p_priority :: jsval
  p_due_date :: jsval
  p_notes :: jsval
  p_sort_order :: jsval

record bound =
  b_id :: "int option"
  b_text :: "string option"
  b_completed :: "bool option"
  b_created_at :: "jsdate option"
  b_type :: "string option"
  b_category :: "string option"
  b_priority :: "string option"
  b_due_date :: "jsdate option"
  b_notes :: "string option"
  b_sort_order :: "int option"

definition bind_insert :: "pgenv \<Rightarrow> item_params \<Rightarrow> bound option" where
  "bind_insert env p =
     do {
       i \<leftarrow> bind_int env 64 (p_id p);
       t \<leftarrow> bind_text env (p_text p);
       c \<leftarrow> bind_bool env (p_completed p);
       ca \<leftarrow> bind_timestamptz env (p_created_at p);
       ty \<leftarrow> bind_varchar env 10 (p_type p);
       cat \<leftarrow> bind_varchar env 100 (p_category p);
       pr \<leftarrow> bind_varchar env 10 (p_priority p);
       dd \<leftarrow> bind_date env (p_due_date p);
       n \<leftarrow> bind_text env (p_notes p);
       so \<leftarrow> bind_int env 32 (p_sort_order p);
       Some \<lparr> b_id = i, b_text = t, b_completed = c, b_created_at = ca, b_type = ty,
              b_category = cat, b_priority = pr, b_due_date = dd, b_notes = n,
              b_sort_order = so \<rparr>
     }"

text \<open>The UPDATE statements have no parameter for \<open>created_at\<close>.\<close>

definition bind_update :: "pgenv \<Rightarrow> item_params \<Rightarrow> bound option" where
  "bind_update env p =
     do {
       t \<leftarrow> bind_text env (p_text p);
       c \<leftarrow> bind_bool env (p_completed p);
       ty \<leftarrow> bind_varchar env 10 (p_type p);
       cat \<leftarrow> bind_varchar env 100 (p_category p);
       pr \<leftarrow> bind_varchar env 10 (p_priority p);
       dd \<leftarrow> bind_date env (p_due_date p);
       n \<leftarrow> bind_text env (p_notes p);
       so \<leftarrow> bind_int env 32 (p_sort_order p);
       i \<leftarrow> bind_int env 64 (p_id p);
       Some \<lparr> b_id = i, b_text = t, b_completed = c, b_created_at = None, b_type = ty,
              b_category = cat, b_priority = pr, b_due_date = dd, b_notes = n,
              b_sort_order = so \<rparr>
     }"

text \<open>
  Storing a row: the primary key and the NOT NULL columns must be present and the
  primary key must be new, otherwise the INSERT is rejected. \<open>RETURNING *\<close> yields the
  stored row.
\<close>

definition store_row :: "string option \<Rightarrow> bound \<Rightarrow> table \<Rightarrow> (table \<times> row) option" where
  "store_row uid b tbl =
     (case (b_id b, b_text b, b_type b, b_category b, b_priority b) of
        (Some i, Some t, Some ty, Some cat, Some pr) \<Rightarrow>
          if i \<in> c_id ` set tbl then None
          else
            (let r = \<lparr> c_id = i, c_text = t, c_completed = b_completed b,
                        created_at = b_created_at b, c_type = ty, c_category = cat,
                        c_priority = pr, due_date = b_due_date b, c_notes = b_notes b,
                        sort_order = b_sort_order b, user_id = uid \<rparr>
             in Some (tbl @ [r], r))
      | _ \<Rightarrow> None)"

text \<open>
  \<open>INSERT INTO items (id, ..., user_id) VALUES ($1, ..., $11) RETURNING *\<close> of the pg
  routes, every column given.
\<close>

definition pg_insert :: "pgenv \<Rightarrow> string \<Rightarrow> item_params \<Rightarrow> table \<Rightarrow> (table \<times> row) option" where
  "pg_insert env uid p tbl =
     do { b \<leftarrow> bind_insert env p; store_row (Some uid) b tbl }"

text \<open>
  \<open>db.insert(items).values({...}).returning()\<close> of the drizzle route: no \<open>user_id\<close>,
  and a \<open>created_at\<close> that is \<open>undefined\<close> leaves the column to its default
  \<open>NOW()\<close>.
\<close>

definition drizzle_insert :: "pgenv \<Rightarrow> item_params \<Rightarrow> table \<Rightarrow> (table \<times> row) option" where
  "drizzle_insert env p tbl =
     do {
       b \<leftarrow> bind_insert env p;
       store_row None
         (if p_created_at p = JUndefined then b\<lparr>b_created_at := Some (clock env)\<rparr> else b) tbl
     }"

text \<open>
  \<open>UPDATE items SET text=$1, ..., sort_order=$8 WHERE id=$9 AND user_id=$10\<close> of the
  pg routes with authentication (\<open>uid = None\<close>: no scope on the owner). A NOT NULL
  column set to NULL rejects the statement when a row is updated; a rejected statement
  changes nothing. The second component is what \<open>RETURNING *\<close> yields.
\<close>

definition matches :: "string option \<Rightarrow> int option \<Rightarrow> row \<Rightarrow> bool" where
  "matches uid i r \<longleftrightarrow>
     i = Some (c_id r) \<and> (case uid of None \<Rightarrow> True | Some u \<Rightarrow> user_id r = Some u)"

definition set_columns :: "string \<Rightarrow> string \<Rightarrow> string \<Rightarrow> string \<Rightarrow> bound \<Rightarrow> row \<Rightarrow> row" where
  "set_columns t ty cat pr b r =
     r\<lparr> c_text := t, c_completed := b_completed b, c_type := ty, c_category := cat,
        c_priority := pr, due_date := b_due_date b, c_notes := b_notes b,
        sort_order := b_sort_order b \<rparr>"

definition new_row :: "bound \<Rightarrow> row \<Rightarrow> row option" where
  "new_row b r =
     (case (b_text b, b_type b, b_category b, b_priority b) of
        (Some t, Some ty, Some cat, Some pr) \<Rightarrow> Some (set_columns t ty cat pr b r)
      | _ \<Rightarrow> None)"

definition update_rows ::
  "string option \<Rightarrow> int option \<Rightarrow> (row \<Rightarrow> row option) \<Rightarrow> table \<Rightarrow> (table \<times> row list) option" where
  "update_rows uid i f tbl =
     (case those (map f (filter (matches uid i) tbl)) of
        None \<Rightarrow> None
      | Some returned \<Rightarrow>
          Some (map (\<lambda>r. if matches uid i r then (case f r of None \<Rightarrow> r | Some r' \<Rightarrow> r') else r) tbl,
                returned))"

definition sql_update :: "pgenv \<Rightarrow> string option \<Rightarrow> item_params \<Rightarrow> table \<Rightarrow> (table \<times> row list) option" where
  "sql_update env uid p tbl =
     do { b \<leftarrow> bind_update env p; update_rows uid (b_id b) (new_row b) tbl }"

text \<open>
  \<open>db.update(items).set({...}).where(eq(items.id, item.id))\<close> of the drizzle route.
  drizzle leaves a column out of the SET clause when its value is \<open>undefined\<close>, so
  such a column keeps what the row has; \<open>text\<close>, \<open>completed\<close>, \<open>type\<close>,
  \<open>category\<close> and \<open>priority\<close> are passed as the item has them and can be
  \<open>undefined\<close>.
\<close>

definition kept :: "item_params \<Rightarrow> bound \<Rightarrow> row \<Rightarrow> bound" where
  "kept p b r =
     b\<lparr> b_text := (if p_text p = JUndefined then Some (c_text r) else b_text b),
        b_completed := (if p_completed p = JUndefined then c_completed r else b_completed b),
        b_type := (if p_type p = JUndefined then Some (c_type r) else b_type b),
        b_category := (if p_category p = JUndefined then Some (c_category r) else b_category b),
        b_priority := (if p_priority p = JUndefined then Some (c_priority r) else b_priority b) \<rparr>"

definition drizzle_update :: "pgenv \<Rightarrow> item_params \<Rightarrow> table \<Rightarrow> (table \<times> row list) option" where
  "drizzle_update env p tbl =
     do { b \<leftarrow> bind_update env p;
          update_rows None (b_id b) (\<lambda>r. new_row (kept p b r) r) tbl }"

text \<open>
  The database as a route sees it: the committed rows and, while a transaction is open
  on the route's client, the rows as the transaction sees them. A statement runs
  against the open transaction if there is one and against the committed rows
  otherwise (autocommit). BEGIN, COMMIT and ROLLBACK themselves are taken not to fail.
\<close>

record db =
  rows :: table
  txn :: "table option"

definition sql_begin :: "db \<Rightarrow> db" where
  "sql_begin d = d\<lparr>txn := Some (rows d)\<rparr>"

definition sql_commit :: "db \<Rightarrow> db" where
  "sql_commit d = (case txn d of None \<Rightarrow> d | Some t \<Rightarrow> \<lparr> rows = t, txn = None \<rparr>)"

definition sql_rollback :: "db \<Rightarrow> db" where
  "sql_rollback d = d\<lparr>txn := None\<rparr>"

definition exec :: "(table \<Rightarrow> (table \<times> 'r) option) \<Rightarrow> db \<Rightarrow> (db \<times> 'r) option" where
  "exec q d =
     (case txn d of
        Some t \<Rightarrow> map_option (\<lambda>(t', res). (d\<lparr>txn := Some t'\<rparr>, res)) (q t)
      | None \<Rightarrow> map_option (\<lambda>(t', res). (d\<lparr>rows := t'\<rparr>, res)) (q (rows d)))"

section \<open>Server: the items routes\<close>

text \<open>
  The routes of server.js (pg, with authentication) and of the drizzle variant. A route
  takes the caller's user id (\<open>req.auth.userId\<close>), the request body and the database,
  and returns the response and the database after it. The theorems about a route speak
  of the database the route finds when it starts.
\<close>

subsection \<open>Rows as JSON\<close>

definition opt_json :: "('a \<Rightarrow> jsval) \<Rightarrow> 'a option \<Rightarrow> jsval" where
  "opt_json f x = (case x of None \<Rightarrow> JNull | Some v \<Rightarrow> f v)"

text \<open>
  \<open>res.json(result.rows[0])\<close>: the row as the driver returns it, under its column
  names. The driver returns a BIGINT as text (the GET route converts it with
  \<open>Number(row.id)\<close>), and \<open>JSON.stringify\<close> writes a \<open>Date\<close> with \<open>toISOString\<close>.
\<close>

definition raw_row_json :: "row \<Rightarrow> jsval" where
  "raw_row_json r =
     JObj [(''id'', JStr (showInt (c_id r))),
           (''text'', JStr (c_text r)),
           (''completed'', opt_json JBool (c_completed r)),
           (''created_at'', opt_json (\<lambda>d. JStr (toISOString d)) (created_at r)),
           (''type'', JStr (c_type r)),
           (''category'', JStr (c_category r)),
           (''priority'', JStr (c_priority r)),
           (''due_date'', opt_json (\<lambda>d. JStr (toISOString d)) (due_date r)),
           (''notes'', opt_json JStr (c_notes r)),
           (''sort_order'', opt_json JNum (sort_order r)),
           (''user_id'', opt_json JStr (user_id r))]"

text \<open>
  The mapping of the GET route (server.js, \<open>result.rows.map(row => ({...}))\<close>).
  \<open>row.created_at.toISOString()\<close> throws on a NULL timestamp (\<open>None\<close>).
\<close>

definition row_to_item :: "row \<Rightarrow> jsval option" where
  "row_to_item r =
     (case created_at r of
        None \<Rightarrow> None
      | Some c \<Rightarrow>
          Some (JObj [(''id'', JNum (c_id r)),
                      (''text'', JStr (c_text r)),
                      (''completed'', opt_json JBool (c_completed r)),
                      (''createdAt'', JStr (toISOString c)),
                      (''type'', JStr (c_type r)),
                      (''category'', JStr (c_category r)),
                      (''priority'', JStr (c_priority r)),
                      (''dueDate'', opt_json (\<lambda>d. JStr (beforeT (toISOString d))) (due_date r)),
                      (''notes'', JStr (case c_notes r of None \<Rightarrow> [] | Some n \<Rightarrow> n)),
                      (''order'', opt_json JNum (sort_order r))]))"

text \<open>
  \<open>rowToItem\<close> of the drizzle variant: the same field names; a NULL timestamp is
  passed on as it is.
\<close>

definition rowToItem :: "row \<Rightarrow> jsval" where
  "rowToItem r =
     JObj [(''id'', JNum (c_id r)),
           (''text'', JStr (c_text r)),
           (''completed'', opt_json JBool (c_completed r)),
           (''createdAt'', opt_json (\<lambda>d. JStr (toISOString d)) (created_at r)),
           (''type'', JStr (c_type r)),
           (''category'', JStr (c_category r)),
           (''priority'', JStr (c_priority r)),
           (''dueDate'', opt_json (\<lambda>d. JStr (beforeT (toISOString d))) (due_date r)),
           (''notes'', JStr (case c_notes r of None \<Rightarrow> [] | Some n \<Rightarrow> n)),
           (''order'', opt_json JNum (sort_order r))]"

text \<open>The field names of the data model (PLAN.md, "Data Model"; spec section 3).\<close>

definition item_fields :: "string list" where
  "item_fields = [''id'', ''text'', ''completed'', ''createdAt'', ''type'', ''category'',
                  ''priority'', ''dueDate'', ''notes'', ''order'']"

subsection \<open>GET /api/items\<close>

text \<open>
  \<open>ORDER BY sort_order ASC, created_at DESC\<close>: ascending puts NULL last, descending
  puts NULL first. SQL leaves the order of ties open; the model keeps them in table
  order.
\<close>

definition created_desc_key :: "row \<Rightarrow> nat \<times> int \<times> int \<times> int \<times> int \<times> int \<times> int \<times> int" where
  "created_desc_key r =
     (case created_at r of
        None \<Rightarrow> (0, 0, 0, 0, 0, 0, 0, 0)
      | Some d \<Rightarrow> (1, - year d, - int (month d), - int (day d), - int (hours d),
                   - int (minutes d), - int (seconds d), - int (millis d)))"

definition sort_order_key :: "row \<Rightarrow> nat \<times> int" where
  "sort_order_key r = (case sort_order r of None \<Rightarrow> (1, 0) | Some n \<Rightarrow> (0, n))"

definition order_by :: "table \<Rightarrow> table" where
  "order_by rs = sort_key sort_order_key (sort_key created_desc_key rs)"

definition get_items :: "string \<Rightarrow> db \<Rightarrow> response" where
  "get_items uid d =
     (case those (map row_to_item (order_by (filter (\<lambda>r. user_id r = Some uid) (rows d)))) of
        None \<Rightarrow> status_json 500 (error_body ''Failed to fetch items'')
      | Some items \<Rightarrow> json (JArr items))"

subsection \<open>POST /api/items\<close>

text \<open>
  The parameter array of the INSERT (server.js): \<open>item.completed || false\<close>,
  \<open>item.createdAt || new Date().toISOString()\<close>, \<open>item.type || 'task'\<close>, and so on.
  Reading a property of an item that is \<open>null\<close> throws.
\<close>

definition post_params :: "pgenv \<Rightarrow> jsval \<Rightarrow> item_params option" where
  "post_params env item =
     do {
       i \<leftarrow> property item ''id'';
       t \<leftarrow> property item ''text'';
       c \<leftarrow> property item ''completed'';
       ca \<leftarrow> property item ''createdAt'';
       ty \<leftarrow> property item ''type'';
       cat \<leftarrow> property item ''category'';
       pr \<leftarrow> property item ''priority'';
       dd \<leftarrow> property item ''dueDate'';
       n \<leftarrow> property item ''notes'';
       so \<leftarrow> property item ''order'';
       Some \<lparr> p_id = i, p_text = t,
              p_completed = js_or c (JBool False),
              p_created_at = js_or ca (JStr (toISOString (clock env))),
              p_type = js_or ty (JStr ''task''),
              p_category = js_or cat (JStr ''personal''),
              p_priority = js_or pr (JStr ''medium''),
              p_due_date = js_or dd JNull,
              p_notes = js_or n (JStr ''''),
              p_sort_order = js_or so (JNum 0) \<rparr>
     }"

text \<open>
  The loop \<open>for (const item of items) { ...; inserted.push(result.rows[0]) }\<close>. It
  returns the database and the rows pushed so far, and whether it ran to its end; it
  stops at the first statement that throws.
\<close>

fun insert_loop :: "pgenv \<Rightarrow> string \<Rightarrow> jsval list \<Rightarrow> row list \<Rightarrow> db \<Rightarrow> db \<times> row list \<times> bool" where
  "insert_loop env uid [] inserted d = (d, inserted, True)"
| "insert_loop env uid (item # rest) inserted d =
     (case post_params env item of
        None \<Rightarrow> (d, inserted, False)
      | Some p \<Rightarrow>
          (case exec (pg_insert env uid p) d of
             None \<Rightarrow> (d, inserted, False)
           | Some (d', r) \<Rightarrow> insert_loop env uid rest (inserted @ [r]) d'))"

definition post_items :: "pgenv \<Rightarrow> string \<Rightarrow> jsval \<Rightarrow> db \<Rightarrow> response \<times> db" where
  "post_items env uid body d =
     (case insert_loop env uid (as_item_list body) [] (sql_begin d) of
        (d1, inserted, ok) \<Rightarrow>
          if ok then (json (JArr (map raw_row_json inserted)), sql_commit d1)
          else (status_json 500 (error_body ''Failed to create items''), sql_rollback d1))"

text \<open>
  The drizzle variant: \<open>created_at: item.createdAt ? new Date(item.createdAt) : undefined\<close>
  and \<open>sort_order: item.order ?? 0\<close>; a \<open>Date\<close> is sent as its ISO text and an invalid
  one throws on the way. No transaction: each INSERT commits on its own.
\<close>

definition drizzle_values :: "pgenv \<Rightarrow> jsval \<Rightarrow> item_params option" where
  "drizzle_values env item =
     do {
       i \<leftarrow> property item ''id'';
       t \<leftarrow> property item ''text'';
       c \<leftarrow> property item ''completed'';
       ca \<leftarrow> property item ''createdAt'';
       ty \<leftarrow> property item ''type'';
       cat \<leftarrow> property item ''category'';
       pr \<leftarrow> property item ''priority'';
       dd \<leftarrow> property item ''dueDate'';
       n \<leftarrow> property item ''notes'';
       so \<leftarrow> property item ''order'';
       cav \<leftarrow> (if truthy ca
                then map_option (\<lambda>d. JStr (toISOString d)) (date_parse env ca)
                else Some JUndefined);
       Some \<lparr> p_id = i, p_text = t,
              p_completed = js_or c (JBool False),
              p_created_at = cav,
              p_type = js_or ty (JStr ''task''),
              p_category = js_or cat (JStr ''personal''),
              p_priority = js_or pr (JStr ''medium''),
              p_due_date = js_or dd JNull,
              p_notes = js_or n (JStr ''''),
              p_sort_order = js_nullish so (JNum 0) \<rparr>
     }"

fun drizzle_insert_loop :: "pgenv \<Rightarrow> jsval list \<Rightarrow> jsval list \<Rightarrow> db \<Rightarrow> db \<times> jsval list \<times> bool" where
  "drizzle_insert_loop env [] inserted d = (d, inserted, True)"
| "drizzle_insert_loop env (item # rest) inserted d =
     (case drizzle_values env item of
        None \<Rightarrow> (d, inserted, False)
      | Some p \<Rightarrow>
          (case exec (drizzle_insert env p) d of
             None \<Rightarrow> (d, inserted, False)
           | Some (d', r) \<Rightarrow> drizzle_insert_loop env rest (inserted @ [rowToItem r]) d'))"

definition drizzle_post_items :: "pgenv \<Rightarrow> jsval \<Rightarrow> db \<Rightarrow> response \<times> db" where
  "drizzle_post_items env body d =
     (case drizzle_insert_loop env (as_item_list body) [] d of
        (d1, inserted, ok) \<Rightarrow>
          if ok then (json (JArr inserted), d1)
          else (status_json 500 (error_body ''Failed to create items''), d1))"

subsection \<open>PUT /api/items/:id\<close>

text \<open>
  The parameters of the UPDATE statements: \<open>dueDate || null\<close>, \<open>notes || ''\<close>,
  \<open>order || 0\<close> (pg) or \<open>order ?? 0\<close> (drizzle).
\<close>

definition update_params :: "jsval \<Rightarrow> jsval \<Rightarrow> item_params option" where
  "update_params i item =
     do {
       t \<leftarrow> property item ''text'';
       c \<leftarrow> property item ''completed'';
       ty \<leftarrow> property item ''type'';
       cat \<leftarrow> property item ''category'';
       pr \<leftarrow> property item ''priority'';
       dd \<leftarrow> property item ''dueDate'';
       n \<leftarrow> property item ''notes'';
       so \<leftarrow> property item ''order'';
       Some \<lparr> p_id = i, p_text = t, p_completed = c, p_created_at = JUndefined,
              p_type = ty, p_category = cat, p_priority = pr,
              p_due_date = js_or dd JNull,
              p_notes = js_or n (JStr ''''),
              p_sort_order = js_or so (JNum 0) \<rparr>
     }"

text \<open>
  The object handed to \<open>set\<close> in the drizzle route. \<open>text\<close>, \<open>completed\<close>, \<open>type\<close>,
  \<open>category\<close> and \<open>priority\<close> are \<open>undefined\<close> when the item lacks them; the
  statement \<open>drizzle_update\<close> leaves such a column out of its SET clause.
\<close>

definition drizzle_update_params :: "jsval \<Rightarrow> jsval \<Rightarrow> item_params option" where
  "drizzle_update_params i item =
     do {
       t \<leftarrow> property item ''text'';
       c \<leftarrow> property item ''completed'';
       ty \<leftarrow> property item ''type'';
       cat \<leftarrow> property item ''category'';
       pr \<leftarrow> property item ''priority'';
       dd \<leftarrow> property item ''dueDate'';
       n \<leftarrow> property item ''notes'';
       so \<leftarrow> property item ''order'';
       Some \<lparr> p_id = i, p_text = t, p_completed = c, p_created_at = JUndefined,
              p_type = ty, p_category = cat, p_priority = pr,
              p_due_date = js_or dd JNull,
              p_notes = js_or n (JStr ''''),
              p_sort_order = js_nullish so (JNum 0) \<rparr>
     }"

text \<open>
  The single-item update of server.js. The body is destructured before the \<open>try\<close>
  block: when \<open>req.body\<close> is \<open>undefined\<close> (a request without a body) or \<open>null\<close>,
  the handler throws there, outside its own \<open>try\<close>, runs no statement and sends none
  of its answers (\<open>None\<close>); what the client then receives is the framework's error
  page. The id is the text of the path segment \<open>:id\<close>.
\<close>

definition put_item :: "pgenv \<Rightarrow> string \<Rightarrow> string \<Rightarrow> jsval \<Rightarrow> db \<Rightarrow> (response \<times> db) option" where
  "put_item env uid i body d =
     do {
       p \<leftarrow> update_params (JStr i) body;
       Some (case exec (sql_update env (Some uid) p) d of
               None \<Rightarrow> (status_json 500 (error_body ''Failed to update item''), d)
             | Some (d', returned) \<Rightarrow>
                 (case returned of
                    [] \<Rightarrow> (status_json 404 (error_body ''Item not found''), d')
                  | r # _ \<Rightarrow> (json (raw_row_json r), d')))
     }"

subsection \<open>PUT /api/items (bulk)\<close>

text \<open>
  The loop of both bulk routes, \<open>for (const item of items) { await UPDATE ... }\<close>,
  over the parameter function and the UPDATE statement of the variant. It returns the
  database reached and whether it ran to its end.
\<close>

fun update_loop ::
  "(item_params \<Rightarrow> table \<Rightarrow> (table \<times> row list) option) \<Rightarrow>
   (jsval \<Rightarrow> jsval \<Rightarrow> item_params option) \<Rightarrow> jsval list \<Rightarrow> db \<Rightarrow> db \<times> bool" where
  "update_loop stmt params [] d = (d, True)"
| "update_loop stmt params (item # rest) d =
     (case property item ''id'' \<bind> (\<lambda>i. params i item) of
        None \<Rightarrow> (d, False)
      | Some p \<Rightarrow>
          (case exec (stmt p) d of
             None \<Rightarrow> (d, False)
           | Some (d', returned) \<Rightarrow> update_loop stmt params rest d'))"

text \<open>server.js: BEGIN, the loop, COMMIT; ROLLBACK in the \<open>catch\<close> block.\<close>

definition put_items :: "pgenv \<Rightarrow> string \<Rightarrow> jsval \<Rightarrow> db \<Rightarrow> response \<times> db" where
  "put_items env uid body d =
     (case iterate body of
        None \<Rightarrow> (status_json 500 (error_body ''Failed to update items''),
                 sql_rollback (sql_begin d))
      | Some items \<Rightarrow>
          (case update_loop (sql_update env (Some uid)) update_params items (sql_begin d) of
             (d1, ok) \<Rightarrow>
               if ok then (json success_body, sql_commit d1)
               else (status_json 500 (error_body ''Failed to update items''),
                     sql_rollback d1)))"

text \<open>The drizzle variant: the same loop with no transaction around it.\<close>

definition drizzle_put_items :: "pgenv \<Rightarrow> jsval \<Rightarrow> db \<Rightarrow> response \<times> db" where
  "drizzle_put_items env body d =
     (case iterate body of
        None \<Rightarrow> (status_json 500 (error_body ''Failed to update items''), d)
      | Some items \<Rightarrow>
          (case update_loop (drizzle_update env) drizzle_update_params items d of
             (d1, ok) \<Rightarrow>
               if ok then (json success_body, d1)
               else (status_json 500 (error_body ''Failed to update items''), d1)))"

subsection \<open>Statement sequences, for comparison\<close>

text \<open>
  What a sequence of UPDATE or INSERT statements makes of a table when each statement
  is applied to the result of the one before, and \<open>None\<close> as soon as one of them
  throws. The routes are compared with these in the theorems below.
\<close>

fun apply_updates ::
  "(item_params \<Rightarrow> table \<Rightarrow> (table \<times> row list) option) \<Rightarrow>
   (jsval \<Rightarrow> jsval \<Rightarrow> item_params option) \<Rightarrow> jsval list \<Rightarrow> table \<Rightarrow> table option" where
  "apply_updates stmt params [] tbl = Some tbl"
| "apply_updates stmt params (item # rest) tbl =
     (case property item ''id'' \<bind> (\<lambda>i. params i item) of
        None \<Rightarrow> None
      | Some p \<Rightarrow>
          (case stmt p tbl of
             None \<Rightarrow> None
           | Some (tbl', returned) \<Rightarrow> apply_updates stmt params rest tbl'))"

text \<open>
  What the same sequence leaves behind when every statement commits on its own: the
  statements before the first one that throws have been applied.
\<close>

fun committed_updates ::
  "(item_params \<Rightarrow> table \<Rightarrow> (table \<times> row list) option) \<Rightarrow>
   (jsval \<Rightarrow> jsval \<Rightarrow> item_params option) \<Rightarrow> jsval list \<Rightarrow> table \<Rightarrow> table" where
  "committed_updates stmt params [] tbl = tbl"
| "committed_updates stmt params (item # rest) tbl =
     (case property item ''id'' \<bind> (\<lambda>i. params i item) of
        None \<Rightarrow> tbl
      | Some p \<Rightarrow>
          (case stmt p tbl of
             None \<Rightarrow> tbl
           | Some (tbl', returned) \<Rightarrow> committed_updates stmt params rest tbl'))"

fun apply_inserts :: "pgenv \<Rightarrow> string \<Rightarrow> jsval list \<Rightarrow> table \<Rightarrow> (table \<times> row list) option" where
  "apply_inserts env uid [] tbl = Some (tbl, [])"
| "apply_inserts env uid (item # rest) tbl =
     (case post_params env item of
        None \<Rightarrow> None
      | Some p \<Rightarrow>
          (case pg_insert env uid p tbl of
             None \<Rightarrow> None
           | Some (tbl', r) \<Rightarrow>
               (case apply_inserts env uid rest tbl' of
                  None \<Rightarrow> None
                | Some (tbl'', rs) \<Rightarrow> Some (tbl'', r # rs))))"

text \<open>
  A full item replacement as both bulk routes treat it alike: \<open>text\<close>,
  \<open>completed\<close>, \<open>type\<close>, \<open>category\<close> and \<open>priority\<close> are present (\<open>null\<close>
  counts as present), and \<open>order\<close> is a value on which \<open>||\<close> and \<open>??\<close> agree: a
  number, \<open>null\<close>, absent, or any truthy value.
\<close>

definition plain_order :: "jsval \<Rightarrow> bool" where
  "plain_order item =
     (case property item ''order'' of
        None \<Rightarrow> True
      | Some v \<Rightarrow> js_or v (JNum 0) = js_nullish v (JNum 0))"

definition full_item :: "jsval \<Rightarrow> bool" where
  "full_item item \<longleftrightarrow>
     plain_order item \<and>
     list_all (\<lambda>k. property item k \<noteq> Some JUndefined)
       [''text'', ''completed'', ''type'', ''category'', ''priority'']"

section \<open>Server: the validated variant\<close>

text \<open>
  The second server of server.js puts a zod schema in front of the items routes.
  A schema is modelled by what its \<open>_parse\<close> does in zod 3: it returns a status
  (valid, dirty or aborted) and adds issues to the context. A failed check (a length, a
  pattern, a minimum) adds its issue and makes the result dirty, which still carries
  the value; a value of the wrong type or outside an enum aborts. An issue is its path
  and its zod issue code; the message text is zod's own and the code stands in for it.
  String lengths count the characters of the model's strings.
\<close>

type_synonym issue = "string list \<times> string"

datatype parsed = Valid jsval | Dirty "issue list" jsval | Aborted "issue list"

type_synonym schema = "jsval \<Rightarrow> parsed"

definition issues_of :: "parsed \<Rightarrow> issue list" where
  "issues_of r = (case r of Valid v \<Rightarrow> [] | Dirty es v \<Rightarrow> es | Aborted es \<Rightarrow> es)"

definition value_of :: "parsed \<Rightarrow> jsval" where
  "value_of r = (case r of Valid v \<Rightarrow> v | Dirty es v \<Rightarrow> v | Aborted es \<Rightarrow> JUndefined)"

definition is_dirty :: "parsed \<Rightarrow> bool" where
  "is_dirty r = (case r of Dirty es v \<Rightarrow> True | _ \<Rightarrow> False)"

definition is_aborted :: "parsed \<Rightarrow> bool" where
  "is_aborted r = (case r of Aborted es \<Rightarrow> True | _ \<Rightarrow> False)"

text \<open>
  \<open>schema.parse(data)\<close>: the value when the result is valid, and otherwise a
  \<open>ZodError\<close> with the issues of the context.
\<close>

definition parse :: "schema \<Rightarrow> jsval \<Rightarrow> issue list + jsval" where
  "parse s v = (case s v of Valid r \<Rightarrow> Inr r | Dirty es r \<Rightarrow> Inl es | Aborted es \<Rightarrow> Inl es)"

definition issues_at :: "string \<Rightarrow> issue list \<Rightarrow> issue list" where
  "issues_at k es = map (\<lambda>e. (k # fst e, snd e)) es"

definition min_len :: "nat \<Rightarrow> string \<Rightarrow> string list" where
  "min_len n s = (if length s < n then [''too_small''] else [])"

definition max_len :: "nat \<Rightarrow> string \<Rightarrow> string list" where
  "max_len n s = (if n < length s then [''too_big''] else [])"

definition date_regex :: "string \<Rightarrow> string list" where
  "date_regex s = (if isDateText s then [] else [''invalid_string''])"

definition at_least :: "int \<Rightarrow> int \<Rightarrow> string list" where
  "at_least lo n = (if n < lo then [''too_small''] else [])"

text \<open>
  \<open>z.string()\<close>, \<open>z.number().int()\<close>, \<open>z.boolean()\<close>, \<open>z.enum([...])\<close> with their
  checks: the wrong type aborts, failed checks make the value dirty.
\<close>

definition checked :: "string list \<Rightarrow> jsval \<Rightarrow> parsed" where
  "checked cs v = (if cs = [] then Valid v else Dirty (map (Pair []) cs) v)"

definition z_string :: "(string \<Rightarrow> string list) \<Rightarrow> schema" where
  "z_string checks v =
     (case v of
        JStr s \<Rightarrow> checked (checks s) v
      | _ \<Rightarrow> Aborted [([], ''invalid_type'')])"

definition z_int :: "(int \<Rightarrow> string list) \<Rightarrow> schema" where
  "z_int checks v =
     (case v of
        JNum n \<Rightarrow> checked (checks n) v
      | _ \<Rightarrow> Aborted [([], ''invalid_type'')])"

definition z_boolean :: schema where
  "z_boolean v = (case v of JBool b \<Rightarrow> Valid v | _ \<Rightarrow> Aborted [([], ''invalid_type'')])"

definition z_enum :: "string list \<Rightarrow> schema" where
  "z_enum xs v =
     (case v of
        JStr s \<Rightarrow> if s \<in> set xs then Valid v else Aborted [([], ''invalid_enum_value'')]
      | _ \<Rightarrow> Aborted [([], ''invalid_type'')])"

text \<open>\<open>.optional()\<close>, \<open>.nullable()\<close>, \<open>.default(d)\<close>.\<close>

definition z_optional :: "schema \<Rightarrow> schema" where
  "z_optional s v = (if v = JUndefined then Valid JUndefined else s v)"

definition z_nullable :: "schema \<Rightarrow> schema" where
  "z_nullable s v = (if v = JNull then Valid JNull else s v)"

definition z_default :: "schema \<Rightarrow> jsval \<Rightarrow> schema" where
  "z_default s d v = s (if v = JUndefined then d else v)"

text \<open>
  \<open>ParseStatus.mergeObjectSync\<close> and \<open>ParseStatus.mergeArray\<close>: the result is
  aborted if a part is aborted, else dirty if the container or a part is dirty, else
  valid. The issues of all parts are in the context in each case.
\<close>

definition merged :: "bool \<Rightarrow> parsed list \<Rightarrow> issue list \<Rightarrow> jsval \<Rightarrow> parsed" where
  "merged dirty rs es v =
     (if list_ex is_aborted rs then Aborted es
      else if dirty \<or> list_ex is_dirty rs then Dirty es v
      else Valid v)"

text \<open>
  \<open>z.object({...})\<close>: the value must be an object; every key of the shape is parsed
  (an absent key as \<open>undefined\<close>), the issues of all keys are collected, and keys that
  are not in the shape are stripped from the result.
\<close>

definition parse_fields :: "(string \<times> schema) list \<Rightarrow> (string \<times> jsval) list \<Rightarrow> (string \<times> parsed) list" where
  "parse_fields fs kvs =
     map (\<lambda>(k, s). (k, s (case map_of kvs k of None \<Rightarrow> JUndefined | Some x \<Rightarrow> x))) fs"

definition field_issues :: "(string \<times> parsed) list \<Rightarrow> issue list" where
  "field_issues rs = concat (map (\<lambda>(k, r). issues_at k (issues_of r)) rs)"

definition field_values :: "(string \<times> parsed) list \<Rightarrow> (string \<times> jsval) list" where
  "field_values rs =
     filter (\<lambda>(k, v). v \<noteq> JUndefined) (map (\<lambda>(k, r). (k, value_of r)) rs)"

definition z_object :: "(string \<times> schema) list \<Rightarrow> schema" where
  "z_object fs v =
     (case v of
        JObj kvs \<Rightarrow>
          (let rs = parse_fields fs kvs
           in merged False (map snd rs) (field_issues rs) (JObj (field_values rs)))
      | _ \<Rightarrow> Aborted [([], ''invalid_type'')])"

text \<open>
  \<open>z.array(s)\<close> with optional \<open>.min(lo)\<close> and \<open>.max(hi)\<close>: the size checks come
  first and make the array dirty, then every element is parsed under its index.
\<close>

definition elem_issues :: "parsed list \<Rightarrow> issue list" where
  "elem_issues rs =
     concat (map (\<lambda>(i, r). issues_at (decimal i) (issues_of r)) (enumerate 0 rs))"

definition size_issues :: "nat option \<Rightarrow> nat option \<Rightarrow> nat \<Rightarrow> issue list" where
  "size_issues lo hi n =
     (case lo of None \<Rightarrow> [] | Some l \<Rightarrow> if n < l then [([], ''too_small'')] else []) @
     (case hi of None \<Rightarrow> [] | Some h \<Rightarrow> if h < n then [([], ''too_big'')] else [])"

definition z_array :: "schema \<Rightarrow> nat option \<Rightarrow> nat option \<Rightarrow> schema" where
  "z_array s lo hi v =
     (case v of
        JArr xs \<Rightarrow>
          (let sizes = size_issues lo hi (length xs); rs = map s xs
           in merged (sizes \<noteq> []) rs (sizes @ elem_issues rs) (JArr (map value_of rs)))
      | _ \<Rightarrow> Aborted [([], ''invalid_type'')])"

text \<open>
  \<open>z.union([a, b])\<close>: the first option whose result is valid wins. If none is valid,
  the first option whose result is dirty is returned with its own issues; only when
  every option aborts is the result the single issue \<open>invalid_union\<close>.
\<close>

definition z_union :: "schema \<Rightarrow> schema \<Rightarrow> schema" where
  "z_union a b v =
     (case a v of
        Valid r \<Rightarrow> Valid r
      | ra \<Rightarrow>
          (case b v of
             Valid r \<Rightarrow> Valid r
           | rb \<Rightarrow>
               if is_dirty ra then ra
               else if is_dirty rb then rb
               else Aborted [([], ''invalid_union'')]))"

text \<open>The schemas of server.js.\<close>

definition itemSchema :: schema where
  "itemSchema =
     z_object
       [(''id'', z_int (at_least 1)),
        (''text'', z_string (\<lambda>s. min_len 1 s @ max_len 1000 s)),
        (''completed'', z_default (z_optional z_boolean) (JBool False)),
        (''createdAt'', z_optional (z_string (\<lambda>s. []))),
        (''type'', z_enum [''task'', ''idea'']),
        (''category'', z_string (\<lambda>s. min_len 1 s @ max_len 100 s)),
        (''priority'', z_enum [''high'', ''medium'', ''low'']),
        (''dueDate'', z_optional (z_nullable (z_string date_regex))),
        (''notes'', z_default (z_optional (z_string (max_len 5000))) (JStr '''')),
        (''order'', z_default (z_optional (z_int (at_least 0))) (JNum 0))]"

definition itemUpdateSchema :: schema where
  "itemUpdateSchema =
     z_object
       [(''text'', z_string (\<lambda>s. min_len 1 s @ max_len 1000 s)),
        (''completed'', z_boolean),
        (''type'', z_enum [''task'', ''idea'']),
        (''category'', z_string (\<lambda>s. min_len 1 s @ max_len 100 s)),
        (''priority'', z_enum [''high'', ''medium'', ''low'']),
        (''dueDate'', z_optional (z_nullable (z_string date_regex))),
        (''notes'', z_optional (z_string (max_len 5000))),
        (''order'', z_optional (z_int (at_least 0)))]"

text \<open>
  The schemas in front of the three validated items routes: POST /api/items,
  PUT /api/items/:id and PUT /api/items.
\<close>

definition post_schema :: schema where
  "post_schema = z_union itemSchema (z_array itemSchema None None)"

definition bulk_schema :: schema where
  "bulk_schema = z_array itemSchema (Some 1) (Some 1000)"

definition items_schemas :: "schema list" where
  "items_schemas = [post_schema, itemUpdateSchema, bulk_schema]"

text \<open>
  The answer of the \<open>validate\<close> middleware to a \<open>ZodError\<close>:
  \<open>res.status(400).json({ error: 'Validation failed', details: [...] })\<close> with one entry
  \<open>{ field: path.join('.'), message }\<close> per issue.
\<close>

fun join_dots :: "string list \<Rightarrow> string" where
  "join_dots [] = []"
| "join_dots [x] = x"
| "join_dots (x # y # zs) = x @ ''.'' @ join_dots (y # zs)"

definition validation_failed :: "issue list \<Rightarrow> response" where
  "validation_failed es =
     status_json 400
       (JObj [(''error'', JStr ''Validation failed''),
              (''details'',
               JArr (map (\<lambda>e. JObj [(''field'', JStr (join_dots (fst e))),
                                     (''message'', JStr (snd e))]) es))])"

subsection \<open>The middleware chain\<close>

text \<open>
  The state of the server process: the database and the flag \<open>unclaimedDataClaimed\<close>.
  A request carries the user id Clerk attached to it, if any, and the parsed body.
\<close>

record app =
  database :: db
  unclaimedDataClaimed :: bool

record request =
  req_auth :: "string option"
  req_body :: jsval

text \<open>
  \<open>app.use('/api', requireAuth())\<close>: a request without a session is answered by
  Clerk's middleware, and no later middleware and no route sees it. What Clerk answers
  is not code of this repository; it is the parameter \<open>denied\<close> of the chain
  below.
\<close>

text \<open>
  The middleware that claims rows without an owner for the caller. Until the flag is
  set it counts the rows with \<open>user_id IS NULL\<close> and, if there are any, runs
  \<open>UPDATE items SET user_id = $1 WHERE user_id IS NULL\<close>; then it sets the flag. (The
  same statement on the other two tables is outside the model.)
\<close>

definition claim_rows :: "string \<Rightarrow> table \<Rightarrow> table" where
  "claim_rows uid tbl = map (\<lambda>r. if user_id r = None then r\<lparr>user_id := Some uid\<rparr> else r) tbl"

definition claim_unclaimed :: "string \<Rightarrow> app \<Rightarrow> app" where
  "claim_unclaimed uid a =
     (if unclaimedDataClaimed a then a
      else
        (let unclaimedCount = length (filter (\<lambda>r. user_id r = None) (rows (database a)))
         in (if 0 < unclaimedCount
             then a\<lparr>database := (database a)\<lparr>rows := claim_rows uid (rows (database a))\<rparr>\<rparr>
             else a)\<lparr>unclaimedDataClaimed := True\<rparr>))"

text \<open>
  A validated route \<open>app.METHOD(path, validate(schema), handler)\<close> behind the two
  \<open>/api\<close> middlewares. \<open>validate\<close> answers a failed parse itself and does not call
  \<open>next()\<close>; on success it replaces the body by the parsed value.
\<close>

definition api_route ::
  "response \<Rightarrow> schema \<Rightarrow> (string \<Rightarrow> jsval \<Rightarrow> app \<Rightarrow> response \<times> app) \<Rightarrow> request \<Rightarrow> app \<Rightarrow>
   response \<times> app" where
  "api_route denied schema handler req a =
     (case req_auth req of
        None \<Rightarrow> (denied, a)
      | Some uid \<Rightarrow>
          (case parse schema (req_body req) of
             Inl es \<Rightarrow> (validation_failed es, claim_unclaimed uid a)
           | Inr validated \<Rightarrow> handler uid validated (claim_unclaimed uid a)))"

definition on_database :: "(db \<Rightarrow> response \<times> db) \<Rightarrow> app \<Rightarrow> response \<times> app" where
  "on_database h a = (case h (database a) of (r, d) \<Rightarrow> (r, a\<lparr>database := d\<rparr>))"

definition validated_post_items :: "pgenv \<Rightarrow> response \<Rightarrow> request \<Rightarrow> app \<Rightarrow> response \<times> app" where
  "validated_post_items env denied =
     api_route denied post_schema (\<lambda>uid body. on_database (post_items env uid body))"

definition validated_put_items :: "pgenv \<Rightarrow> response \<Rightarrow> request \<Rightarrow> app \<Rightarrow> response \<times> app" where
  "validated_put_items env denied =
     api_route denied bulk_schema (\<lambda>uid body. on_database (put_items env uid body))"

text \<open>
  A schema reports its failures when every result that is not valid carries an issue,
  so that the \<open>ZodError\<close> of a failed parse is never empty.
\<close>

definition reports :: "schema \<Rightarrow> bool" where
  "reports s \<longleftrightarrow> (\<forall>v. issues_of (s v) = [] \<longrightarrow> (\<exists>r. s v = Valid r))"

section \<open>Server: a concrete environment and concrete requests\<close>

text \<open>
  An environment for the worked examples: a database that reads a date only as
  \<open>YYYY-MM-DD\<close>, a timestamp only in the form \<open>toISOString\<close> writes, a number sent
  as text only as a string of digits, and rejects every other parameter that is not of
  its column's JSON type.
\<close>

definition numOf :: "string \<Rightarrow> nat" where
  "numOf s = foldl (\<lambda>a c. 10 * a + (of_char c - 48)) 0 s"

definition parseDigits :: "string \<Rightarrow> int option" where
  "parseDigits s = (if s \<noteq> [] \<and> list_all isDigit s then Some (int (numOf s)) else None)"

definition parseDateText :: "string \<Rightarrow> jsdate option" where
  "parseDateText s =
     (if isDateText s
      then Some \<lparr> year = int (numOf (take 4 s)), month = numOf (take 2 (drop 5 s)),
                  day = numOf (take 2 (drop 8 s)), hours = 0, minutes = 0, seconds = 0,
                  millis = 0 \<rparr>
      else None)"

definition parseIsoText :: "string \<Rightarrow> jsdate option" where
  "parseIsoText s =
     (if length s = 24 \<and> isDateText (take 10 s) \<and> s ! 10 = CHR ''T'' \<and>
         list_all isDigit (take 2 (drop 11 s)) \<and> s ! 13 = CHR '':'' \<and>
         list_all isDigit (take 2 (drop 14 s)) \<and> s ! 16 = CHR '':'' \<and>
         list_all isDigit (take 2 (drop 17 s)) \<and> s ! 19 = CHR ''.'' \<and>
         list_all isDigit (take 3 (drop 20 s)) \<and> s ! 23 = CHR ''Z''
      then Some \<lparr> year = int (numOf (take 4 s)), month = numOf (take 2 (drop 5 s)),
                  day = numOf (take 2 (drop 8 s)), hours = numOf (take 2 (drop 11 s)),
                  minutes = numOf (take 2 (drop 14 s)), seconds = numOf (take 2 (drop 17 s)),
                  millis = numOf (take 3 (drop 20 s)) \<rparr>
      else None)"

definition demoNow :: jsdate where
  "demoNow = \<lparr> year = 2026, month = 2, day = 17, hours = 9, minutes = 30, seconds = 0,
               millis = 0 \<rparr>"

definition demoEnv :: pgenv where
  "demoEnv =
     \<lparr> clock = demoNow,
       date_parse = (\<lambda>v. case v of JStr s \<Rightarrow> parseIsoText s | _ \<Rightarrow> None),
       text_in = (\<lambda>v. None),
       bool_in = (\<lambda>v. None),
       int_in = (\<lambda>v. case v of JStr s \<Rightarrow> parseDigits s | _ \<Rightarrow> None),
       date_in = (\<lambda>v. case v of JStr s \<Rightarrow> parseDateText s | _ \<Rightarrow> None),
       timestamptz_in = (\<lambda>v. case v of JStr s \<Rightarrow> parseIsoText s | _ \<Rightarrow> None) \<rparr>"

text \<open>A stored row of user \<open>alice\<close>, and an empty and a one-row database.\<close>

definition demoRow :: "int \<Rightarrow> string option \<Rightarrow> row" where
  "demoRow i u =
     \<lparr> c_id = i, c_text = ''water the plants'', c_completed = Some False,
       created_at = Some demoNow, c_type = ''task'', c_category = ''personal'',
       c_priority = ''medium'', due_date = None, c_notes = Some '''',
       sort_order = Some 0, user_id = u \<rparr>"

definition emptyDb :: db where
  "emptyDb = \<lparr> rows = [], txn = None \<rparr>"

definition demoDb :: db where
  "demoDb = \<lparr> rows = [demoRow 1 (Some ''alice''), demoRow 2 (Some ''alice'')], txn = None \<rparr>"

text \<open>Request bodies: a complete item, and an item whose \<open>text\<close> is missing.\<close>

definition demoItemJson :: "int \<Rightarrow> int \<Rightarrow> jsval" where
  "demoItemJson i n =
     JObj [(''id'', JNum i), (''text'', JStr ''buy milk''), (''completed'', JBool False),
           (''type'', JStr ''task''), (''category'', JStr ''personal''),
           (''priority'', JStr ''high''), (''dueDate'', JStr ''2026-02-18''),
           (''notes'', JStr ''''), (''order'', JNum n)]"

definition noTextJson :: "int \<Rightarrow> jsval" where
  "noTextJson i =
     JObj [(''id'', JNum i), (''completed'', JBool True), (''type'', JStr ''task''),
           (''category'', JStr ''personal''), (''priority'', JStr ''high'')]"

text \<open>An item whose \<open>text\<close> is \<open>null\<close>.\<close>

definition nullTextJson :: "int \<Rightarrow> jsval" where
  "nullTextJson i =
     JObj [(''id'', JNum i), (''text'', JNull), (''completed'', JBool True),
           (''type'', JStr ''task''), (''category'', JStr ''personal''),
           (''priority'', JStr ''high'')]"

text \<open>An item that carries only its id and an \<open>order\<close>.\<close>

definition orderOnlyJson :: "int \<Rightarrow> int \<Rightarrow> jsval" where
  "orderOnlyJson i n = JObj [(''id'', JNum i), (''order'', JNum n)]"

text \<open>An item that supplies \<open>order: 0\<close> and an empty \<open>dueDate\<close> and leaves the rest out.\<close>

definition sparseJson :: jsval where
  "sparseJson =
     JObj [(''id'', JNum 5), (''text'', JStr ''call the bank''), (''order'', JNum 0),
           (''dueDate'', JStr '''')]"

text \<open>An item whose \<open>order\<close> is \<open>false\<close>.\<close>

definition falseOrderJson :: jsval where
  "falseOrderJson =
     JObj [(''id'', JNum 6), (''text'', JStr ''call the bank''), (''order'', JBool False)]"

text \<open>
  The first request body of test-validation.js, which lacks id, type, category and
  priority; a server state with a row nobody owns yet, and one after the claim.
\<close>

definition badBody :: jsval where
  "badBody = JObj [(''text'', JStr ''Test task'')]"

definition freshApp :: app where
  "freshApp = \<lparr> database = \<lparr> rows = [demoRow 1 None], txn = None \<rparr>,
                unclaimedDataClaimed = False \<rparr>"

definition settledApp :: app where
  "settledApp = \<lparr> database = demoDb, unclaimedDataClaimed = True \<rparr>"

text \<open>
  A complete item whose \<open>text\<close> is empty, and an answer of \<open>requireAuth\<close> for the
  examples, a redirect to the sign-in page.
\<close>

definition emptyTextJson :: jsval where
  "emptyTextJson =
     JObj [(''id'', JNum 3), (''text'', JStr ''''), (''type'', JStr ''task''),
           (''category'', JStr ''personal''), (''priority'', JStr ''high'')]"

definition signInRedirect :: response where
  "signInRedirect = \<lparr> status = 302, rbody = JUndefined \<rparr>"

subsection \<open>Facts about the Grouping Engine\<close>

lemma set_datesOf:
  "set (datesOf today xs) = {d. \<exists>it \<in> set xs. groupKey today it = OnDate d}"
  by (auto simp: datesOf_def split: group_key.splits)

lemma sorted_distinct_datesOf:
  "sorted (datesOf today xs) \<and> distinct (datesOf today xs)"
  by (simp add: datesOf_def)

lemma strict_sorted_datesOf: "sorted_wrt (<) (datesOf today xs)"
  using sorted_distinct_datesOf [of today xs]
  by (simp add: strict_sorted_iff)

lemma key_mkGroup [simp]: "key (mkGroup today k xs) = k"
  by (simp add: mkGroup_def)

lemma gitems_mkGroup_empty:
  "gitems (mkGroup today k xs) = [] \<longleftrightarrow> (\<forall>it \<in> set xs. groupKey today it \<noteq> k)"
proof -
  have "gitems (mkGroup today k xs) = []
        \<longleftrightarrow> set (gitems (mkGroup today k xs)) = {}"
    by simp
  also have "\<dots> \<longleftrightarrow> (\<forall>it \<in> set xs. groupKey today it \<noteq> k)"
    by (auto simp: mkGroup_def sortItems_def)
  finally show ?thesis .
qed

lemma sorted_wrt_key_before_dates:
  "sorted_wrt (<) ds \<Longrightarrow> sorted_wrt key_before (map OnDate ds)"
  by (simp add: sorted_wrt_map)

lemma keys_groupAndFilter:
  "map key (groupAndFilter today items f) =
     (if \<exists>it \<in> set (filter (passes f) items). groupKey today it = Overdue
      then [Overdue] else [])
     @ map OnDate (datesOf today (filter (passes f) items))
     @ (if \<exists>it \<in> set (filter (passes f) items). groupKey today it = NoDate
        then [NoDate] else [])"
  by (auto simp: groupAndFilter_def Let_def comp_def)

lemma sorted_keys_groupAndFilter:
  "sorted_wrt key_before (map key (groupAndFilter today items f))"
  unfolding keys_groupAndFilter
  using sorted_wrt_key_before_dates [OF strict_sorted_datesOf, of today "filter (passes f) items"]
  by (auto simp: sorted_wrt_append)

lemma set_keys_groupAndFilter:
  "set (map key (groupAndFilter today items f)) =
     groupKey today ` set (filter (passes f) items)"
proof -
  let ?v = "filter (passes f) items"
  have "\<And>k. k \<in> set (map key (groupAndFilter today items f))
          \<longleftrightarrow> (\<exists>it \<in> set ?v. groupKey today it = k)"
  proof -
    fix k
    show "k \<in> set (map key (groupAndFilter today items f))
          \<longleftrightarrow> (\<exists>it \<in> set ?v. groupKey today it = k)"
      unfolding keys_groupAndFilter
      by (cases k) (auto simp: set_datesOf)
  qed
  then show ?thesis
    by (intro set_eqI) (simp only: image_iff, metis)
qed

lemma nonempty_groups_groupAndFilter:
  "g \<in> set (groupAndFilter today items f) \<Longrightarrow> gitems g \<noteq> []"
  by (auto simp: groupAndFilter_def Let_def gitems_mkGroup_empty set_datesOf)

text \<open>
  Claim C3. For every item collection and filter set, the keys of the group sequence
  are strictly increasing in the prescribed order (overdue first, then the distinct due
  dates in ascending chronological order, then no-date last); the keys are exactly the
  group keys of the items that pass the filters, so a group exists only where an item
  falls into it; and no group of the output is empty.
\<close>

theorem C3_group_sequence_order:
  "sorted_wrt key_before (map key (groupAndFilter today items f)) \<and>
   set (map key (groupAndFilter today items f)) =
     groupKey today ` set (filter (passes f) items) \<and>
   (\<forall>g \<in> set (groupAndFilter today items f). gitems g \<noteq> [])"
  using sorted_keys_groupAndFilter set_keys_groupAndFilter nonempty_groups_groupAndFilter
  by blast

theorem C3_group_sequence_order_witness:
  "map key (groupAndFilter demoToday demoStore noFilters) = [Overdue, OnDate demoToday, NoDate] \<and>
   sorted_wrt key_before (map key (groupAndFilter demoToday demoStore noFilters)) \<and>
   gitems (hd (groupAndFilter demoToday demoStore noFilters)) \<noteq> []"
proof -
  have ks: "map key (groupAndFilter demoToday demoStore noFilters)
          = [Overdue, OnDate demoToday, NoDate]"
    by code_simp
  then have "groupAndFilter demoToday demoStore noFilters \<noteq> []"
    by auto
  then have "hd (groupAndFilter demoToday demoStore noFilters)
               \<in> set (groupAndFilter demoToday demoStore noFilters)"
    by simp
  with ks C3_group_sequence_order [of demoToday demoStore noFilters]
  show ?thesis by simp
qed

subsection \<open>Facts about the Reschedule intent\<close>

lemma nextOrder_Max:
  "members \<noteq> [] \<Longrightarrow> nextOrder members = Max (order ` set members) + 1"
proof (cases members)
  case Nil
  assume "members \<noteq> []"
  with Nil show ?thesis by simp
next
  case (Cons m ms)
  have "fold (\<lambda>it acc. max (order it) acc) ms (order m) = fold max (map order ms) (order m)"
    by (simp add: fold_map comp_def)
  also have "\<dots> = Max (set (order m # map order ms))"
    by (simp only: Max.set_eq_fold)
  finally show ?thesis using Cons by (simp add: nextOrder_def)
qed

lemma nextOrder_above:
  "m \<in> set members \<Longrightarrow> order m < nextOrder members"
proof -
  assume m: "m \<in> set members"
  then have ne: "members \<noteq> []" by auto
  have "order m \<le> Max (order ` set members)"
    using m by (intro Max_ge) auto
  then show ?thesis using nextOrder_Max [OF ne] by simp
qed

lemma length_reschedule: "length (reschedule today a d s) = length s"
  by (simp add: reschedule_def setOrder_def setDueDate_def)

lemma nth_reschedule:
  "j < length s \<Longrightarrow>
   reschedule today a d s ! j =
     (if iid (s ! j) = a
      then (s ! j)\<lparr>dueDate := d, order := nextOrder (destGroup today d s)\<rparr>
      else s ! j)"
  by (simp add: reschedule_def setOrder_def setDueDate_def)

text \<open>
  Claim C8. Applying a Reschedule intent for item \<open>a\<close> keeps the store's length
  and, position by position, every field other than \<open>dueDate\<close> and \<open>order\<close>;
  an item with another id is unchanged altogether; an item with id \<open>a\<close> gets the
  new due date and the order \<open>nextOrder\<close> of the destination group, which lies
  above the order of every member of that group and is one past the maximum when the
  group has members.
\<close>

theorem C8_reschedule_isolation:
  "length (reschedule today a d s) = length s \<and>
   (\<forall>j < length s.
      iid (reschedule today a d s ! j) = iid (s ! j) \<and>
      itext (reschedule today a d s ! j) = itext (s ! j) \<and>
      completed (reschedule today a d s ! j) = completed (s ! j) \<and>
      createdAt (reschedule today a d s ! j) = createdAt (s ! j) \<and>
      itype (reschedule today a d s ! j) = itype (s ! j) \<and>
      category (reschedule today a d s ! j) = category (s ! j) \<and>
      priority (reschedule today a d s ! j) = priority (s ! j) \<and>
      inotes (reschedule today a d s ! j) = inotes (s ! j) \<and>
      (iid (s ! j) \<noteq> a \<longrightarrow> reschedule today a d s ! j = s ! j) \<and>
      (iid (s ! j) = a \<longrightarrow>
         dueDate (reschedule today a d s ! j) = d \<and>
         order (reschedule today a d s ! j) = nextOrder (destGroup today d s))) \<and>
   (\<forall>m \<in> set (destGroup today d s). order m < nextOrder (destGroup today d s)) \<and>
   (destGroup today d s \<noteq> [] \<longrightarrow>
      nextOrder (destGroup today d s) = Max (order ` set (destGroup today d s)) + 1)"
  using nextOrder_above nextOrder_Max
  by (simp add: length_reschedule nth_reschedule)

theorem C8_reschedule_isolation_witness:
  "reschedule demoToday 3 (Some demoToday) demoStore =
     [demoItem 1 (Some (2026, 2, 16)) 0, demoItem 2 (Some demoToday) 0,
      demoItem 3 (Some demoToday) 1] \<and>
   destGroup demoToday (Some demoToday) demoStore = [demoItem 2 (Some demoToday) 0] \<and>
   nextOrder (destGroup demoToday (Some demoToday) demoStore) = 1"
proof -
  have dg: "destGroup demoToday (Some demoToday) demoStore = [demoItem 2 (Some demoToday) 0]"
    by (simp add: destGroup_def destKey_def groupKey_def demoStore_def demoItem_def demoToday_def)
  have ne: "destGroup demoToday (Some demoToday) demoStore \<noteq> []"
    by (simp add: dg)
  have mx: "Max (order ` set (destGroup demoToday (Some demoToday) demoStore)) = 0"
    by (simp add: dg demoItem_def)
  from C8_reschedule_isolation [of demoToday 3 "Some demoToday" demoStore] ne mx
  have no: "nextOrder (destGroup demoToday (Some demoToday) demoStore) = 1"
    by simp
  have "reschedule demoToday 3 (Some demoToday) demoStore =
     [demoItem 1 (Some (2026, 2, 16)) 0, demoItem 2 (Some demoToday) 0,
      demoItem 3 (Some demoToday) 1]"
    unfolding reschedule_def no
    by (simp add: setOrder_def setDueDate_def demoStore_def demoItem_def demoToday_def)
  with dg no show ?thesis by simp
qed

subsection \<open>Facts about the Sync Manager\<close>

lemma deliver_stale:
  "n \<noteq> latest st a \<Longrightarrow>
   store (deliver a n r st) = store st \<and> latest (deliver a n r st) = latest st"
  by (simp add: deliver_def dropPending_def)

lemma deliver_latest_succeeded:
  "store (deliver a (latest st a) Succeeded st) = store st"
  by (simp add: deliver_def dropPending_def)

lemma deliver_latest_failed:
  "map_of (pending st) (a, latest st a) = Some snap \<Longrightarrow>
   store (deliver a (latest st a) Failed st) = restore a snap (store st)"
  by (simp add: deliver_def dropPending_def)

lemma twoReschedules_eq:
  "twoReschedules today a d1 d2 st =
     (\<lparr> store = reschedule today a d2 (reschedule today a d1 (store st)),
        latest = (latest st)(a := latest st a + 2),
        pending = ((a, latest st a + 2), snapshot a (reschedule today a d1 (store st)))
                  # ((a, latest st a + 1), snapshot a (store st)) # pending st \<rparr>,
      latest st a + 1, latest st a + 2)"
  by (simp add: twoReschedules_def issueReschedule_def Let_def)

lemma dueDate_reschedule:
  assumes "it \<in> set (reschedule today a d s)" and "iid it = a"
  shows "dueDate it = d"
proof -
  from assms(1) obtain j where j: "j < length s" "it = reschedule today a d s ! j"
    by (metis in_set_conv_nth length_reschedule)
  show ?thesis
  proof (cases "iid (s ! j) = a")
    case True
    with j show ?thesis by (simp add: nth_reschedule)
  next
    case False
    with j assms(2) show ?thesis by (simp add: nth_reschedule)
  qed
qed

lemma snapshot_Some:
  "snapshot a s = Some old \<Longrightarrow> old \<in> set s \<and> iid old = a"
  by (auto simp: snapshot_def find_Some_iff)

lemma snapshot_None:
  "snapshot a s = None \<Longrightarrow> it \<in> set s \<Longrightarrow> iid it \<noteq> a"
  by (auto simp: snapshot_def find_None_iff)

lemma map_iid_reschedule:
  "map iid (reschedule today a d s) = map iid s"
  by (simp add: reschedule_def setOrder_def setDueDate_def comp_def if_distrib cong: if_cong)

lemma iid_reschedule:
  "iid ` set (reschedule today a d s) = iid ` set s"
  using map_iid_reschedule [of today a d s]
  by (metis set_map)

lemma restore_after_second:
  assumes "it \<in> set (restore a (snapshot a (reschedule today a d1 s))
                        (reschedule today a d2 (reschedule today a d1 s)))"
    and "iid it = a"
  shows "dueDate it = d1"
proof (cases "snapshot a (reschedule today a d1 s)")
  case None
  have "a \<in> iid ` set (reschedule today a d2 (reschedule today a d1 s))"
    using assms None by (auto simp: restore_def)
  then have "a \<in> iid ` set (reschedule today a d1 s)"
    by (simp add: iid_reschedule)
  with None show ?thesis
    by (auto dest: snapshot_None)
next
  case (Some old)
  then have old: "old \<in> set (reschedule today a d1 s)" "iid old = a"
    by (auto dest: snapshot_Some)
  from assms Some have "it = old"
    by (auto simp: restore_def split: if_splits)
  with old show ?thesis
    by (auto dest: dueDate_reschedule)
qed

lemma store_firstThenSecond:
  "store (firstThenSecond today a d1 d2 r1 r2 st) =
     (case r2 of
        Succeeded \<Rightarrow> reschedule today a d2 (reschedule today a d1 (store st))
      | Failed \<Rightarrow> restore a (snapshot a (reschedule today a d1 (store st)))
                   (reschedule today a d2 (reschedule today a d1 (store st))))"
  by (cases r2)
     (simp_all add: firstThenSecond_def twoReschedules_eq deliver_def dropPending_def)

lemma store_secondThenFirst:
  "store (secondThenFirst today a d1 d2 r1 r2 st) =
     (case r2 of
        Succeeded \<Rightarrow> reschedule today a d2 (reschedule today a d1 (store st))
      | Failed \<Rightarrow> restore a (snapshot a (reschedule today a d1 (store st)))
                   (reschedule today a d2 (reschedule today a d1 (store st))))"
  by (cases r2)
     (simp_all add: secondThenFirst_def twoReschedules_eq deliver_def dropPending_def)

text \<open>
  Claim C4 (as amended). Item \<open>a\<close> is rescheduled to \<open>d1\<close> and then to \<open>d2\<close>
  before either response arrives. After both responses are delivered, in either order
  and whatever the first request's response reports, the due date of \<open>a\<close> in the
  store is \<open>d2\<close> when the second request's response reports success, and \<open>d1\<close>
  (the snapshot taken before the second reschedule, restored by the rollback) when it
  reports failure; both delivery orders end in the same store. A response whose
  sequence number is not the latest issued for \<open>a\<close> leaves the store and the
  sequence numbers as they are, so it never triggers a rollback.
\<close>

theorem C4_stale_response_immunity:
  "(\<forall>it \<in> set (store (firstThenSecond today a d1 d2 r1 r2 st)).
      iid it = a \<longrightarrow> dueDate it = (case r2 of Succeeded \<Rightarrow> d2 | Failed \<Rightarrow> d1)) \<and>
   (\<forall>it \<in> set (store (secondThenFirst today a d1 d2 r1 r2 st)).
      iid it = a \<longrightarrow> dueDate it = (case r2 of Succeeded \<Rightarrow> d2 | Failed \<Rightarrow> d1)) \<and>
   store (firstThenSecond today a d1 d2 r1 r2 st)
     = store (secondThenFirst today a d1 d2 r1 r2 st) \<and>
   (\<forall>n r s. n \<noteq> latest s a \<longrightarrow>
      store (deliver a n r s) = store s \<and> latest (deliver a n r s) = latest s)"
  unfolding store_firstThenSecond store_secondThenFirst
  by (cases r2) (auto dest: dueDate_reschedule restore_after_second simp: deliver_stale)


theorem C4_stale_response_immunity_witness:
  "dueDatesOf 3 (store (firstThenSecond demoToday 3 (Some (2026, 2, 17)) (Some (2026, 2, 18))
                          Failed Succeeded demoSync)) = [Some (2026, 2, 18)] \<and>
   dueDatesOf 3 (store (secondThenFirst demoToday 3 (Some (2026, 2, 17)) (Some (2026, 2, 18))
                          Failed Succeeded demoSync)) = [Some (2026, 2, 18)]"
proof -
  have a: "dueDatesOf 3 (store (firstThenSecond demoToday 3 (Some (2026, 2, 17))
             (Some (2026, 2, 18)) Failed Succeeded demoSync)) = [Some (2026, 2, 18)]"
    by (simp add: store_firstThenSecond dueDatesOf_def reschedule_def setOrder_def
          setDueDate_def demoSync_def demoStore_def demoItem_def)
  from C4_stale_response_immunity
         [of demoToday 3 "Some (2026, 2, 17)" "Some (2026, 2, 18)" Failed Succeeded demoSync]
  have "store (firstThenSecond demoToday 3 (Some (2026, 2, 17)) (Some (2026, 2, 18))
                 Failed Succeeded demoSync)
        = store (secondThenFirst demoToday 3 (Some (2026, 2, 17)) (Some (2026, 2, 18))
                   Failed Succeeded demoSync)"
    by blast
  with a show ?thesis by simp
qed

text \<open>
  Claim C4 as stated fails when the response of the second (latest) request reports a
  failure: the rollback restores the snapshot taken before the second reschedule, so
  item 3 ends with the first date, not the second.
\<close>

theorem C4_latest_failure_counterexample:
  "dueDatesOf 3 (store (firstThenSecond demoToday 3 (Some (2026, 2, 17)) (Some (2026, 2, 18))
                          Succeeded Failed demoSync)) = [Some (2026, 2, 17)] \<and>
   dueDatesOf 3 (store (firstThenSecond demoToday 3 (Some (2026, 2, 17)) (Some (2026, 2, 18))
                          Succeeded Failed demoSync)) \<noteq> [Some (2026, 2, 18)]"
  by (simp add: store_firstThenSecond dueDatesOf_def reschedule_def setOrder_def
        setDueDate_def restore_def snapshot_def demoSync_def demoStore_def demoItem_def)

section \<open>Facts about the server\<close>

subsection \<open>The bulk update\<close>

lemma exec_txn:
  "txn d = Some t \<Longrightarrow>
   exec q d = (case q t of None \<Rightarrow> None | Some (t', res) \<Rightarrow> Some (d\<lparr>txn := Some t'\<rparr>, res))"
  by (simp add: exec_def split: option.splits)

lemma exec_autocommit:
  "txn d = None \<Longrightarrow>
   exec q d = (case q (rows d) of None \<Rightarrow> None | Some (t', res) \<Rightarrow> Some (d\<lparr>rows := t'\<rparr>, res))"
  by (simp add: exec_def split: option.splits)

lemma update_loop_txn_ok:
  "txn d = Some t \<Longrightarrow> apply_updates stmt ps items t = Some t' \<Longrightarrow>
   update_loop stmt ps items d = (d\<lparr>txn := Some t'\<rparr>, True)"
proof (induction items arbitrary: d t)
  case Nil
  then show ?case by simp
next
  case (Cons item rest)
  from Cons.prems(2) obtain p where p: "property item ''id'' \<bind> (\<lambda>i. ps i item) = Some p"
    by (auto split: option.splits)
  with Cons.prems(2) obtain t1 ret where q: "stmt p t = Some (t1, ret)"
    and rest: "apply_updates stmt ps rest t1 = Some t'"
    by (auto split: option.splits)
  have "txn (d\<lparr>txn := Some t1\<rparr>) = Some t1" by simp
  from Cons.IH [OF this rest] p q Cons.prems(1) show ?case
    by (simp add: exec_txn)
qed

lemma update_loop_txn_fail:
  "txn d = Some t \<Longrightarrow> apply_updates stmt ps items t = None \<Longrightarrow>
   \<exists>d'. update_loop stmt ps items d = (d', False) \<and> rows d' = rows d \<and> txn d' \<noteq> None"
proof (induction items arbitrary: d t)
  case Nil
  then show ?case by simp
next
  case (Cons item rest)
  show ?case
  proof (cases "property item ''id'' \<bind> (\<lambda>i. ps i item)")
    case None
    with Cons.prems(1) show ?thesis by simp
  next
    case (Some p)
    show ?thesis
    proof (cases "stmt p t")
      case None
      with Some Cons.prems(1) show ?thesis by (simp add: exec_txn)
    next
      case (Some a)
      obtain t1 ret where a: "a = (t1, ret)" by (cases a)
      with Some \<open>property item ''id'' \<bind> (\<lambda>i. ps i item) = Some p\<close> Cons.prems(2)
      have rest: "apply_updates stmt ps rest t1 = None" by simp
      have "txn (d\<lparr>txn := Some t1\<rparr>) = Some t1" by simp
      from Cons.IH [OF this rest]
      obtain d' where "update_loop stmt ps rest (d\<lparr>txn := Some t1\<rparr>) = (d', False)"
        "rows d' = rows d" "txn d' \<noteq> None"
        by auto
      with Some a \<open>property item ''id'' \<bind> (\<lambda>i. ps i item) = Some p\<close> Cons.prems(1)
      show ?thesis by (simp add: exec_txn)
    qed
  qed
qed

lemma put_items_not_array:
  "iterate body = None \<Longrightarrow>
   put_items env uid body d =
     (status_json 500 (error_body ''Failed to update items''), \<lparr>rows = rows d, txn = None\<rparr>)"
  by (simp add: put_items_def sql_rollback_def sql_begin_def)

lemma put_items_rejected:
  assumes it: "iterate body = Some items"
    and none: "apply_updates (sql_update env (Some uid)) update_params items (rows d) = None"
  shows "put_items env uid body d =
           (status_json 500 (error_body ''Failed to update items''),
            \<lparr>rows = rows d, txn = None\<rparr>)"
proof -
  have "txn (sql_begin d) = Some (rows d)" by (simp add: sql_begin_def)
  from update_loop_txn_fail [OF this none]
  obtain d' where "update_loop (sql_update env (Some uid)) update_params items (sql_begin d) = (d', False)"
    "rows d' = rows (sql_begin d)" by auto
  with it show ?thesis
    by (simp add: put_items_def sql_rollback_def sql_begin_def)
qed

lemma put_items_accepted:
  assumes it: "iterate body = Some items"
    and some: "apply_updates (sql_update env (Some uid)) update_params items (rows d) = Some tbl'"
  shows "put_items env uid body d = (json success_body, \<lparr>rows = tbl', txn = None\<rparr>)"
proof -
  have "txn (sql_begin d) = Some (rows d)" by (simp add: sql_begin_def)
  from update_loop_txn_ok [OF this some] it show ?thesis
    by (simp add: put_items_def sql_commit_def sql_begin_def)
qed



subsection \<open>The two bulk-update variants\<close>

lemma update_loop_auto:
  "txn d = None \<Longrightarrow>
   update_loop stmt ps items d =
     (d\<lparr>rows := committed_updates stmt ps items (rows d)\<rparr>,
      apply_updates stmt ps items (rows d) \<noteq> None)"
proof (induction items arbitrary: d)
  case Nil
  then show ?case by simp
next
  case (Cons item rest)
  show ?case
  proof (cases "property item ''id'' \<bind> (\<lambda>i. ps i item)")
    case None
    then show ?thesis by simp
  next
    case (Some p)
    note p = this
    show ?thesis
    proof (cases "stmt p (rows d)")
      case None
      with p Cons.prems show ?thesis by (simp add: exec_autocommit)
    next
      case (Some a)
      obtain t1 ret where a: "a = (t1, ret)" by (cases a)
      have "txn (d\<lparr>rows := t1\<rparr>) = None"
        using Cons.prems by simp
      from Cons.IH [OF this] Some a p Cons.prems show ?thesis
        by (simp add: exec_autocommit)
    qed
  qed
qed

lemma committed_updates_all:
  "apply_updates stmt ps items tbl = Some t' \<Longrightarrow> committed_updates stmt ps items tbl = t'"
  by (induction items arbitrary: tbl) (auto split: option.splits)

lemma matches_owned:
  "user_id r = Some uid \<Longrightarrow> matches (Some uid) i r = matches None i r"
  by (simp add: matches_def)

lemma update_rows_owned:
  assumes "\<forall>r \<in> set tbl. user_id r = Some uid"
  shows "update_rows (Some uid) i f tbl = update_rows None i f tbl"
proof -
  have f: "filter (matches (Some uid) i) tbl = filter (matches None i) tbl"
    using assms by (intro filter_cong) (simp_all add: matches_owned)
  have m: "\<And>g. map (\<lambda>r. if matches (Some uid) i r then g r else r) tbl
             = map (\<lambda>r. if matches None i r then g r else r) tbl"
    using assms by (intro map_cong) (simp_all add: matches_owned)
  show ?thesis
    unfolding update_rows_def f m ..
qed

lemma user_id_set_columns [simp]: "user_id (set_columns t ty cat pr b r) = user_id r"
  by (simp add: set_columns_def)

lemma new_row_keeps_owner: "new_row b r = Some r' \<Longrightarrow> user_id r' = user_id r"
  by (auto simp: new_row_def split: option.splits)

lemma update_rows_keeps_owner:
  assumes "update_rows u i f tbl = Some (tbl', ret)"
    and "\<And>r r'. f r = Some r' \<Longrightarrow> user_id r' = user_id r"
    and "\<forall>r \<in> set tbl. user_id r = Some uid"
  shows "\<forall>r \<in> set tbl'. user_id r = Some uid"
  using assms
  by (auto simp: update_rows_def split: if_splits option.splits)

lemma sql_update_keeps_owner:
  assumes "sql_update env u p tbl = Some (tbl', ret)" and "\<forall>r \<in> set tbl. user_id r = Some uid"
  shows "\<forall>r \<in> set tbl'. user_id r = Some uid"
proof -
  from assms(1) obtain b where "update_rows u (b_id b) (new_row b) tbl = Some (tbl', ret)"
    by (auto simp: sql_update_def split: Option.bind_splits)
  from update_rows_keeps_owner [OF this new_row_keeps_owner assms(2)] show ?thesis .
qed

text \<open>
  On an item that carries all five fields drizzle's SET clause has every column, and
  the two statements differ in the scope on the owner only.
\<close>

lemma kept_all:
  assumes "p_text p \<noteq> JUndefined" "p_completed p \<noteq> JUndefined" "p_type p \<noteq> JUndefined"
    "p_category p \<noteq> JUndefined" "p_priority p \<noteq> JUndefined"
  shows "kept p b r = b"
  using assms by (simp add: kept_def)

lemma drizzle_update_all:
  assumes "p_text p \<noteq> JUndefined" "p_completed p \<noteq> JUndefined" "p_type p \<noteq> JUndefined"
    "p_category p \<noteq> JUndefined" "p_priority p \<noteq> JUndefined"
  shows "drizzle_update env p tbl = sql_update env None p tbl"
  using assms by (simp add: drizzle_update_def sql_update_def kept_all)

lemma params_plain_order:
  "plain_order item \<Longrightarrow> update_params i item = drizzle_update_params i item"
  by (cases "property item ''order''")
     (auto simp: plain_order_def update_params_def drizzle_update_params_def
           split: Option.bind_splits)

lemma update_params_full:
  assumes "full_item item" and "update_params i item = Some p"
  shows "p_text p \<noteq> JUndefined \<and> p_completed p \<noteq> JUndefined \<and> p_type p \<noteq> JUndefined \<and>
         p_category p \<noteq> JUndefined \<and> p_priority p \<noteq> JUndefined"
  using assms
  by (auto simp: full_item_def update_params_def split: Option.bind_splits)

lemma statement_variants:
  assumes "\<forall>r \<in> set tbl. user_id r = Some uid" and "full_item item"
    and "update_params i item = Some p"
  shows "drizzle_update_params i item = Some p \<and>
         drizzle_update env p tbl = sql_update env (Some uid) p tbl"
proof -
  from assms(2) have "plain_order item"
    by (simp add: full_item_def)
  from params_plain_order [OF this, of i] assms(3)
  have 1: "drizzle_update_params i item = Some p" by simp
  from update_params_full [OF assms(2,3)]
  have "drizzle_update env p tbl = sql_update env None p tbl"
    by (intro drizzle_update_all) simp_all
  also have "\<dots> = sql_update env (Some uid) p tbl"
    using assms(1) by (simp add: sql_update_def update_rows_owned)
  finally show ?thesis using 1 by simp
qed

lemma updates_variants:
  "\<forall>r \<in> set tbl. user_id r = Some uid \<Longrightarrow> \<forall>item \<in> set items. full_item item \<Longrightarrow>
   apply_updates (drizzle_update env) drizzle_update_params items tbl
     = apply_updates (sql_update env (Some uid)) update_params items tbl \<and>
   committed_updates (drizzle_update env) drizzle_update_params items tbl
     = committed_updates (sql_update env (Some uid)) update_params items tbl"
proof (induction items arbitrary: tbl)
  case Nil
  then show ?case by simp
next
  case (Cons item rest)
  from Cons.prems(2) have full: "full_item item" by simp
  then have po: "plain_order item" by (simp add: full_item_def)
  show ?case
  proof (cases "property item ''id''")
    case None
    then show ?thesis by simp
  next
    case (Some i)
    note i = this
    show ?thesis
    proof (cases "update_params i item")
      case None
      with i params_plain_order [OF po, of i] show ?thesis by simp
    next
      case (Some p)
      note p = this
      from statement_variants [OF Cons.prems(1) full p]
      have dp: "drizzle_update_params i item = Some p"
        and st: "drizzle_update env p tbl = sql_update env (Some uid) p tbl"
        by simp_all
      show ?thesis
      proof (cases "sql_update env (Some uid) p tbl")
        case None
        with i p dp st show ?thesis by simp
      next
        case (Some a)
        obtain t1 ret where a: "a = (t1, ret)" by (cases a)
        from sql_update_keeps_owner [of env "Some uid" p tbl t1 ret uid] Some a Cons.prems(1)
        have "\<forall>r \<in> set t1. user_id r = Some uid" by simp
        from Cons.IH [OF this] Cons.prems(2) Some a i p dp st
        show ?thesis by simp
      qed
    qed
  qed
qed

lemma drizzle_put_items_not_array:
  "iterate body = None \<Longrightarrow>
   drizzle_put_items env body d = (status_json 500 (error_body ''Failed to update items''), d)"
  by (simp add: drizzle_put_items_def)

lemma drizzle_put_items_rejected:
  assumes "txn d = None" and "iterate body = Some items"
    and "apply_updates (drizzle_update env) drizzle_update_params items (rows d) = None"
  shows "drizzle_put_items env body d =
           (status_json 500 (error_body ''Failed to update items''),
            d\<lparr>rows := committed_updates (drizzle_update env) drizzle_update_params items (rows d)\<rparr>)"
  using update_loop_auto [OF assms(1), of "drizzle_update env" drizzle_update_params items]
    assms(2,3)
  by (simp add: drizzle_put_items_def)

lemma drizzle_put_items_accepted:
  assumes "txn d = None" and "iterate body = Some items"
    and "apply_updates (drizzle_update env) drizzle_update_params items (rows d) = Some tbl'"
  shows "drizzle_put_items env body d = (json success_body, d\<lparr>rows := tbl'\<rparr>)"
  using update_loop_auto [OF assms(1), of "drizzle_update env" drizzle_update_params items]
    assms(2,3) committed_updates_all [OF assms(3)]
  by (simp add: drizzle_put_items_def)

text \<open>
  Claim C5 (as amended). Take a table whose rows all belong to the caller, on a
  connection with no open transaction. A body that is not an array is answered 500 by
  both routes, with the table unchanged. For a body that is an array of full
  replacements (every item carries \<open>text\<close>, \<open>completed\<close>, \<open>type\<close>, \<open>category\<close>
  and \<open>priority\<close>, and an \<open>order\<close> that \<open>||\<close> and \<open>??\<close> treat alike): when no
  UPDATE of the sequence is rejected, the pg route and the drizzle route both answer
  \<open>{ success: true }\<close> and leave the same table, the result of all the updates; when
  one is rejected, both answer 500, the pg route leaves the table as it found it, and
  the drizzle route leaves the updates made before the rejected one.
\<close>

theorem C5_bulk_variants_agree:
  assumes "txn d = None"
    and "\<forall>r \<in> set (rows d). user_id r = Some uid"
  shows
    "(iterate body = None \<longrightarrow>
        put_items env uid body d =
          (status_json 500 (error_body ''Failed to update items''), d) \<and>
        drizzle_put_items env body d =
          (status_json 500 (error_body ''Failed to update items''), d)) \<and>
     (\<forall>items. iterate body = Some items \<and> (\<forall>item \<in> set items. full_item item) \<longrightarrow>
        (\<forall>tbl'. apply_updates (sql_update env (Some uid)) update_params items (rows d) = Some tbl' \<longrightarrow>
           put_items env uid body d = (json success_body, d\<lparr>rows := tbl'\<rparr>) \<and>
           drizzle_put_items env body d = (json success_body, d\<lparr>rows := tbl'\<rparr>)) \<and>
        (apply_updates (sql_update env (Some uid)) update_params items (rows d) = None \<longrightarrow>
           put_items env uid body d =
             (status_json 500 (error_body ''Failed to update items''), d) \<and>
           drizzle_put_items env body d =
             (status_json 500 (error_body ''Failed to update items''),
              d\<lparr>rows := committed_updates (sql_update env (Some uid)) update_params
                           items (rows d)\<rparr>)))"
proof (intro conjI allI impI)
  have d: "\<lparr>rows = rows d, txn = None\<rparr> = d"
    using assms(1) by simp
  {
    assume n: "iterate body = None"
    from put_items_not_array [OF n, of env uid d] d
    show "put_items env uid body d =
          (status_json 500 (error_body ''Failed to update items''), d)"
      by simp
    from n show "drizzle_put_items env body d =
          (status_json 500 (error_body ''Failed to update items''), d)"
      by (rule drizzle_put_items_not_array)
  }
  fix items
  assume a: "iterate body = Some items \<and> (\<forall>item \<in> set items. full_item item)"
  then have it: "iterate body = Some items" and full: "\<forall>item \<in> set items. full_item item"
    by simp_all
  note same = updates_variants [OF assms(2) full, of env]
  {
    fix tbl'
    assume s: "apply_updates (sql_update env (Some uid)) update_params items (rows d) = Some tbl'"
    have "\<lparr>rows = tbl', txn = None\<rparr> = d\<lparr>rows := tbl'\<rparr>"
      using assms(1) by simp
    with put_items_accepted [OF it s]
    show "put_items env uid body d = (json success_body, d\<lparr>rows := tbl'\<rparr>)"
      by simp
    from s same
    have "apply_updates (drizzle_update env) drizzle_update_params items (rows d) = Some tbl'"
      by simp
    from drizzle_put_items_accepted [OF assms(1) it this]
    show "drizzle_put_items env body d = (json success_body, d\<lparr>rows := tbl'\<rparr>)" .
  }
  assume n: "apply_updates (sql_update env (Some uid)) update_params items (rows d) = None"
  from put_items_rejected [OF it n] d
  show "put_items env uid body d =
             (status_json 500 (error_body ''Failed to update items''), d)"
    by simp
  from n same
  have "apply_updates (drizzle_update env) drizzle_update_params items (rows d) = None"
    by simp
  from drizzle_put_items_rejected [OF assms(1) it this] same
  show "drizzle_put_items env body d =
             (status_json 500 (error_body ''Failed to update items''),
              d\<lparr>rows := committed_updates (sql_update env (Some uid)) update_params
                           items (rows d)\<rparr>)"
    by simp
qed

theorem C5_bulk_variants_agree_witness:
  "put_items demoEnv ''alice'' (JArr [demoItemJson 1 5, demoItemJson 2 6]) demoDb
     = drizzle_put_items demoEnv (JArr [demoItemJson 1 5, demoItemJson 2 6]) demoDb \<and>
   fst (drizzle_put_items demoEnv (JArr [demoItemJson 1 5, demoItemJson 2 6]) demoDb)
     = json success_body \<and>
   map sort_order (rows (snd (drizzle_put_items demoEnv
      (JArr [demoItemJson 1 5, demoItemJson 2 6]) demoDb))) = [Some 5, Some 6] \<and>
   put_items demoEnv ''alice'' (JArr [demoItemJson 1 5, nullTextJson 2]) demoDb
     = (status_json 500 (error_body ''Failed to update items''), demoDb) \<and>
   fst (drizzle_put_items demoEnv (JArr [demoItemJson 1 5, nullTextJson 2]) demoDb)
     = status_json 500 (error_body ''Failed to update items'') \<and>
   map sort_order (rows (snd (drizzle_put_items demoEnv
      (JArr [demoItemJson 1 5, nullTextJson 2]) demoDb))) = [Some 5, Some 0]"
proof -
  have t: "txn demoDb = None"
    by (simp add: demoDb_def)
  have o: "\<forall>r \<in> set (rows demoDb). user_id r = Some ''alice''"
    by (simp add: demoDb_def demoRow_def)
  have it: "\<And>xs. iterate (JArr xs) = Some xs"
    by (simp add: iterate_def)
  have p1: "\<forall>item \<in> set [demoItemJson 1 5, demoItemJson 2 6]. full_item item"
    by (simp add: full_item_def plain_order_def demoItemJson_def js_or_def js_nullish_def)
  have p2: "\<forall>item \<in> set [demoItemJson 1 5, nullTextJson 2]. full_item item"
    by (simp add: full_item_def plain_order_def demoItemJson_def nullTextJson_def
                  js_or_def js_nullish_def)
  have a1: "map_option (map sort_order)
              (apply_updates (sql_update demoEnv (Some ''alice'')) update_params
                 [demoItemJson 1 5, demoItemJson 2 6] (rows demoDb)) = Some [Some 5, Some 6]"
    by code_simp
  then obtain tbl' where
    a1': "apply_updates (sql_update demoEnv (Some ''alice'')) update_params
              [demoItemJson 1 5, demoItemJson 2 6] (rows demoDb) = Some tbl'"
    and s1: "map sort_order tbl' = [Some 5, Some 6]"
    by auto
  have a2: "apply_updates (sql_update demoEnv (Some ''alice'')) update_params
              [demoItemJson 1 5, nullTextJson 2] (rows demoDb) = None"
    by code_simp
  have c2: "map sort_order
              (committed_updates (sql_update demoEnv (Some ''alice'')) update_params
                 [demoItemJson 1 5, nullTextJson 2] (rows demoDb)) = [Some 5, Some 0]"
    by code_simp
  from C5_bulk_variants_agree [OF t o, where env = demoEnv
         and body = "JArr [demoItemJson 1 5, demoItemJson 2 6]"] it p1 a1'
  have one: "put_items demoEnv ''alice'' (JArr [demoItemJson 1 5, demoItemJson 2 6]) demoDb
               = (json success_body, demoDb\<lparr>rows := tbl'\<rparr>)"
    and one': "drizzle_put_items demoEnv (JArr [demoItemJson 1 5, demoItemJson 2 6]) demoDb
               = (json success_body, demoDb\<lparr>rows := tbl'\<rparr>)"
    by blast+
  from C5_bulk_variants_agree [OF t o, where env = demoEnv
         and body = "JArr [demoItemJson 1 5, nullTextJson 2]"] it p2 a2
  have two: "put_items demoEnv ''alice'' (JArr [demoItemJson 1 5, nullTextJson 2]) demoDb
               = (status_json 500 (error_body ''Failed to update items''), demoDb)"
    and two': "drizzle_put_items demoEnv (JArr [demoItemJson 1 5, nullTextJson 2]) demoDb =
             (status_json 500 (error_body ''Failed to update items''),
              demoDb\<lparr>rows := committed_updates (sql_update demoEnv (Some ''alice''))
                 update_params [demoItemJson 1 5, nullTextJson 2] (rows demoDb)\<rparr>)"
    by blast+
  from one one' two two' s1 c2 show ?thesis by simp
qed

text \<open>
  Claim C5 as stated fails in two ways. When the second item has no \<open>text\<close>, the pg
  route sends NULL for it, the UPDATE violates NOT NULL and the answer is 500 with
  nothing changed, while drizzle leaves \<open>text\<close> out of the SET clause, updates the
  row and answers \<open>{ success: true }\<close>: the responses differ. When the second item
  has \<open>text: null\<close>, both routes answer 500, but the pg route rolls the first update
  back and the drizzle route has already committed it: the tables differ. An item that
  carries only an \<open>order\<close> is refused by the pg route, while the drizzle route
  changes \<open>sort_order\<close> and leaves every other column of the row as it was.
\<close>

theorem C5_mid_sequence_failure_counterexample:
  "fst (put_items demoEnv ''alice'' (JArr [demoItemJson 1 5, noTextJson 2]) demoDb)
     = status_json 500 (error_body ''Failed to update items'') \<and>
   fst (drizzle_put_items demoEnv (JArr [demoItemJson 1 5, noTextJson 2]) demoDb)
     = json success_body \<and>
   map c_text (rows (snd (drizzle_put_items demoEnv
      (JArr [demoItemJson 1 5, noTextJson 2]) demoDb))) = [''buy milk'', ''water the plants''] \<and>
   map c_completed (rows (snd (drizzle_put_items demoEnv
      (JArr [demoItemJson 1 5, noTextJson 2]) demoDb))) = [Some False, Some True] \<and>
   status (fst (put_items demoEnv ''alice'' (JArr [demoItemJson 1 5, nullTextJson 2]) demoDb))
     = 500 \<and>
   status (fst (drizzle_put_items demoEnv (JArr [demoItemJson 1 5, nullTextJson 2]) demoDb))
     = 500 \<and>
   map sort_order (rows (snd (put_items demoEnv ''alice''
      (JArr [demoItemJson 1 5, nullTextJson 2]) demoDb))) = [Some 0, Some 0] \<and>
   map sort_order (rows (snd (drizzle_put_items demoEnv
      (JArr [demoItemJson 1 5, nullTextJson 2]) demoDb))) = [Some 5, Some 0] \<and>
   put_items demoEnv ''alice'' (JArr [orderOnlyJson 1 5]) demoDb
     = (status_json 500 (error_body ''Failed to update items''), demoDb) \<and>
   drizzle_put_items demoEnv (JArr [orderOnlyJson 1 5]) demoDb
     = (json success_body,
        demoDb\<lparr>rows := [(demoRow 1 (Some ''alice''))\<lparr>sort_order := Some 5\<rparr>,
                         demoRow 2 (Some ''alice'')]\<rparr>)"
  by code_simp

subsection \<open>Creating items\<close>

lemma store_row_Some:
  "store_row u b tbl = Some (tbl', r) \<Longrightarrow>
   tbl' = tbl @ [r] \<and> b_id b = Some (c_id r) \<and> user_id r = u \<and> c_id r \<notin> c_id ` set tbl"
  by (auto simp: store_row_def Let_def split: option.splits if_splits)

lemma pg_insert_Some:
  assumes "pg_insert env uid p tbl = Some (tbl', r)"
  shows "tbl' = tbl @ [r] \<and> user_id r = Some uid \<and>
         (\<exists>b. bind_insert env p = Some b \<and> b_id b = Some (c_id r))"
proof -
  from assms obtain b where b: "bind_insert env p = Some b" "store_row (Some uid) b tbl = Some (tbl', r)"
    by (auto simp: pg_insert_def split: Option.bind_splits)
  from store_row_Some [OF b(2)] b(1) show ?thesis by auto
qed

lemma insert_loop_txn_ok:
  "txn d = Some t \<Longrightarrow> apply_inserts env uid items t = Some (t', ins) \<Longrightarrow>
   insert_loop env uid items acc d = (d\<lparr>txn := Some t'\<rparr>, acc @ ins, True)"
proof (induction items arbitrary: d t acc ins)
  case Nil
  then show ?case by simp
next
  case (Cons item rest)
  from Cons.prems(2) obtain p where p: "post_params env item = Some p"
    by (auto split: option.splits)
  with Cons.prems(2) obtain t1 r where q: "pg_insert env uid p t = Some (t1, r)"
    by (auto split: option.splits)
  with p Cons.prems(2) obtain rs where rest: "apply_inserts env uid rest t1 = Some (t', rs)"
    and ins: "ins = r # rs"
    by (auto split: option.splits)
  have "txn (d\<lparr>txn := Some t1\<rparr>) = Some t1" by simp
  from Cons.IH [OF this rest, of "acc @ [r]"] p q ins Cons.prems(1) show ?case
    by (simp add: exec_txn)
qed

lemma insert_loop_txn_fail:
  "txn d = Some t \<Longrightarrow> apply_inserts env uid items t = None \<Longrightarrow>
   \<exists>d' acc'. insert_loop env uid items acc d = (d', acc', False) \<and> rows d' = rows d"
proof (induction items arbitrary: d t acc)
  case Nil
  then show ?case by simp
next
  case (Cons item rest)
  show ?case
  proof (cases "post_params env item")
    case None
    then show ?thesis by simp
  next
    case (Some p)
    note p = this
    show ?thesis
    proof (cases "pg_insert env uid p t")
      case None
      with p Cons.prems(1) show ?thesis by (simp add: exec_txn)
    next
      case (Some a)
      obtain t1 r where a: "a = (t1, r)" by (cases a)
      with Some p Cons.prems(2)
      have rest: "apply_inserts env uid rest t1 = None"
        by (auto split: option.splits)
      have "txn (d\<lparr>txn := Some t1\<rparr>) = Some t1" by simp
      from Cons.IH [OF this rest, of "acc @ [r]"]
      obtain d' acc' where
        "insert_loop env uid rest (acc @ [r]) (d\<lparr>txn := Some t1\<rparr>) = (d', acc', False)"
        "rows d' = rows d"
        by auto
      with Some a p Cons.prems(1) show ?thesis by (simp add: exec_txn)
    qed
  qed
qed

lemma apply_inserts_Some:
  "apply_inserts env uid items t = Some (t', ins) \<Longrightarrow>
   t' = t @ ins \<and> length ins = length items \<and>
   (\<forall>j < length ins. \<exists>p b. post_params env (items ! j) = Some p \<and>
        bind_insert env p = Some b \<and> b_id b = Some (c_id (ins ! j)) \<and>
        user_id (ins ! j) = Some uid)"
proof (induction items arbitrary: t ins)
  case Nil
  then show ?case by simp
next
  case (Cons item rest)
  from Cons.prems obtain p where p: "post_params env item = Some p"
    by (auto split: option.splits)
  with Cons.prems obtain t1 r where q: "pg_insert env uid p t = Some (t1, r)"
    by (auto split: option.splits)
  with p Cons.prems obtain rs where rest: "apply_inserts env uid rest t1 = Some (t', rs)"
    and ins: "ins = r # rs"
    by (auto split: option.splits)
  note ih = Cons.IH [OF rest]
  note one = pg_insert_Some [OF q]
  have "t' = t @ ins" using ih one ins by simp
  moreover have "length ins = length (item # rest)" using ih ins by simp
  moreover have "\<forall>j < length ins. \<exists>p b. post_params env ((item # rest) ! j) = Some p \<and>
        bind_insert env p = Some b \<and> b_id b = Some (c_id (ins ! j)) \<and>
        user_id (ins ! j) = Some uid"
  proof (intro allI impI)
    fix j assume j: "j < length ins"
    show "\<exists>p b. post_params env ((item # rest) ! j) = Some p \<and>
        bind_insert env p = Some b \<and> b_id b = Some (c_id (ins ! j)) \<and>
        user_id (ins ! j) = Some uid"
    proof (cases j)
      case 0
      with p one ins show ?thesis by auto
    next
      case (Suc k)
      with j ins have "k < length rs" by simp
      with ih Suc ins show ?thesis by simp
    qed
  qed
  ultimately show ?case by blast
qed

lemma post_items_rejected:
  assumes "apply_inserts env uid (as_item_list body) (rows d) = None"
  shows "post_items env uid body d =
           (status_json 500 (error_body ''Failed to create items''),
            \<lparr>rows = rows d, txn = None\<rparr>)"
proof -
  have "txn (sql_begin d) = Some (rows d)" by (simp add: sql_begin_def)
  from insert_loop_txn_fail [OF this assms, of "[]"]
  obtain d' acc' where
    "insert_loop env uid (as_item_list body) [] (sql_begin d) = (d', acc', False)"
    "rows d' = rows (sql_begin d)" by auto
  then show ?thesis
    by (simp add: post_items_def sql_rollback_def sql_begin_def)
qed

lemma post_items_accepted:
  assumes "apply_inserts env uid (as_item_list body) (rows d) = Some (tbl', ins)"
  shows "post_items env uid body d =
           (json (JArr (map raw_row_json ins)), \<lparr>rows = tbl', txn = None\<rparr>)"
proof -
  have "txn (sql_begin d) = Some (rows d)" by (simp add: sql_begin_def)
  from insert_loop_txn_ok [OF this assms, of "[]"] show ?thesis
    by (simp add: post_items_def sql_commit_def sql_begin_def)
qed

text \<open>
  Claim C7. The create route takes a single item or an array of items
  (\<open>as_item_list\<close>). If an INSERT of the sequence throws, the route answers 500 and
  the committed rows are those it found. Otherwise the rows inserted are appended to
  the table, one per supplied item and in input order (the row at position \<open>j\<close> has
  the id bound from item \<open>j\<close> and the caller as owner), and the response is the list
  of these rows as the statement returned them.
\<close>

theorem C7_create_items:
  "(apply_inserts env uid (as_item_list body) (rows d) = None \<longrightarrow>
      post_items env uid body d =
        (status_json 500 (error_body ''Failed to create items''),
         \<lparr>rows = rows d, txn = None\<rparr>)) \<and>
   (\<forall>tbl' ins. apply_inserts env uid (as_item_list body) (rows d) = Some (tbl', ins) \<longrightarrow>
      post_items env uid body d =
        (json (JArr (map raw_row_json ins)), \<lparr>rows = tbl', txn = None\<rparr>) \<and>
      tbl' = rows d @ ins \<and>
      length ins = length (as_item_list body) \<and>
      (\<forall>j < length ins. \<exists>p b. post_params env (as_item_list body ! j) = Some p \<and>
           bind_insert env p = Some b \<and> b_id b = Some (c_id (ins ! j)) \<and>
           user_id (ins ! j) = Some uid)) \<and>
   as_item_list (JArr xs) = xs \<and>
   as_item_list (JObj kvs) = [JObj kvs]"
  using post_items_rejected post_items_accepted apply_inserts_Some
  by (simp add: as_item_list_def)

theorem C7_create_items_witness:
  "post_items demoEnv ''alice'' (JArr [demoItemJson 7 3, noTextJson 8]) emptyDb =
     (status_json 500 (error_body ''Failed to create items''), emptyDb) \<and>
   map c_id (rows (snd (post_items demoEnv ''alice''
                          (JArr [demoItemJson 7 3, demoItemJson 8 4]) emptyDb))) = [7, 8]"
proof -
  have l: "\<And>xs. as_item_list (JArr xs) = xs"
    by (simp add: as_item_list_def)
  have e: "\<lparr>rows = rows emptyDb, txn = None\<rparr> = emptyDb"
    by (simp add: emptyDb_def)
  have a1: "apply_inserts demoEnv ''alice'' [demoItemJson 7 3, noTextJson 8] (rows emptyDb) = None"
    by code_simp
  have a2: "map_option (\<lambda>x. map c_id (fst x))
              (apply_inserts demoEnv ''alice'' [demoItemJson 7 3, demoItemJson 8 4] (rows emptyDb))
            = Some [7, 8]"
    by code_simp
  then obtain tbl' ins where
    s: "apply_inserts demoEnv ''alice'' [demoItemJson 7 3, demoItemJson 8 4] (rows emptyDb)
          = Some (tbl', ins)" and ids: "map c_id tbl' = [7, 8]"
    by auto
  from C7_create_items [of demoEnv "''alice''" "JArr [demoItemJson 7 3, noTextJson 8]" emptyDb]
    a1 l e
  have one: "post_items demoEnv ''alice'' (JArr [demoItemJson 7 3, noTextJson 8]) emptyDb =
     (status_json 500 (error_body ''Failed to create items''), emptyDb)"
    by simp
  from C7_create_items [of demoEnv "''alice''" "JArr [demoItemJson 7 3, demoItemJson 8 4]" emptyDb]
    s l
  have "snd (post_items demoEnv ''alice'' (JArr [demoItemJson 7 3, demoItemJson 8 4]) emptyDb)
          = \<lparr>rows = tbl', txn = None\<rparr>"
    by simp
  with ids one show ?thesis by simp
qed

subsection \<open>Updating one item\<close>

lemma put_item_eq:
  assumes "update_params (JStr i) body = Some p" and "txn d = None"
  shows "put_item env uid i body d =
           Some (case sql_update env (Some uid) p (rows d) of
                   None \<Rightarrow> (status_json 500 (error_body ''Failed to update item''), d)
                 | Some (t', returned) \<Rightarrow>
                     (case returned of
                        [] \<Rightarrow> (status_json 404 (error_body ''Item not found''), d\<lparr>rows := t'\<rparr>)
                      | r # rs \<Rightarrow> (json (raw_row_json r), d\<lparr>rows := t'\<rparr>)))"
  using assms
  by (simp add: put_item_def exec_autocommit split: option.splits list.splits)

lemma update_rows_none_owned:
  "filter (matches uid i) tbl = [] \<Longrightarrow> update_rows uid i f tbl = Some (tbl, [])"
  by (simp add: update_rows_def filter_empty_conv cong: map_cong)

lemma those_map_total: "those (map (\<lambda>r. Some (g r)) xs) = Some (map g xs)"
  by (induction xs) simp_all

lemma those_map_none: "xs \<noteq> [] \<Longrightarrow> those (map (\<lambda>r. None) xs) = None"
  by (cases xs) simp_all

lemma update_rows_replaced:
  assumes "b_text b = Some t" "b_type b = Some ty" "b_category b = Some cat" "b_priority b = Some pr"
  shows "update_rows uid (b_id b) (new_row b) tbl =
           Some (map (\<lambda>r. if matches uid (b_id b) r then set_columns t ty cat pr b r else r) tbl,
                 map (set_columns t ty cat pr b) (filter (matches uid (b_id b)) tbl))"
proof -
  have "new_row b = (\<lambda>r. Some (set_columns t ty cat pr b r))"
    using assms by (simp add: new_row_def fun_eq_iff)
  then show ?thesis
    by (simp add: update_rows_def those_map_total)
qed

lemma update_rows_not_null:
  assumes "filter (matches uid (b_id b)) tbl \<noteq> []"
    and "b_text b = None \<or> b_type b = None \<or> b_category b = None \<or> b_priority b = None"
  shows "update_rows uid (b_id b) (new_row b) tbl = None"
proof -
  have "new_row b = (\<lambda>r. None)"
    using assms(2) by (auto simp: new_row_def fun_eq_iff split: option.splits)
  with assms(1) show ?thesis
    by (simp add: update_rows_def those_map_none)
qed

lemma update_params_none:
  "update_params i body = None \<longleftrightarrow> body = JUndefined \<or> body = JNull"
  by (cases body) (simp_all add: update_params_def)

lemma put_item_no_body:
  "update_params (JStr i) body = None \<Longrightarrow> put_item env uid i body d = None"
  by (simp add: put_item_def)

text \<open>
  Claim C2 (as amended). For a single-item update on a connection with no open
  transaction. A request without a body (\<open>req.body\<close> is \<open>undefined\<close> or \<open>null\<close>)
  makes the handler throw while it destructures the body, before its \<open>try\<close> block:
  no statement runs and the handler sends none of its answers. For every other body:
  if the database rejects a parameter, or a row of the caller has the id and a NOT NULL
  column would become NULL, the route answers 500 and changes nothing; otherwise it
  answers 404 exactly when no row with that id belongs to the caller, and else replaces
  text, completed, type, category, priority, due_date, notes and sort_order of that row
  by the bound request values and returns the row as stored.
\<close>

theorem C2_update_item:
  assumes "txn d = None"
  shows
   "(update_params (JStr i) body = None \<longleftrightarrow> body = JUndefined \<or> body = JNull) \<and>
    (update_params (JStr i) body = None \<longrightarrow> put_item env uid i body d = None) \<and>
    (\<forall>p. update_params (JStr i) body = Some p \<longrightarrow>
      (bind_update env p = None \<longrightarrow>
         put_item env uid i body d =
           Some (status_json 500 (error_body ''Failed to update item''), d)) \<and>
      (\<forall>b. bind_update env p = Some b \<longrightarrow>
         (filter (matches (Some uid) (b_id b)) (rows d) = [] \<longrightarrow>
            put_item env uid i body d =
              Some (status_json 404 (error_body ''Item not found''), d)) \<and>
         (filter (matches (Some uid) (b_id b)) (rows d) \<noteq> [] \<longrightarrow>
            (b_text b = None \<or> b_type b = None \<or> b_category b = None \<or> b_priority b = None \<longrightarrow>
               put_item env uid i body d =
                 Some (status_json 500 (error_body ''Failed to update item''), d)) \<and>
            (\<forall>t ty cat pr.
               b_text b = Some t \<and> b_type b = Some ty \<and> b_category b = Some cat \<and>
               b_priority b = Some pr \<longrightarrow>
               put_item env uid i body d =
                 Some (json (raw_row_json
                         (set_columns t ty cat pr b
                            (hd (filter (matches (Some uid) (b_id b)) (rows d))))),
                       d\<lparr>rows := map (\<lambda>r. if matches (Some uid) (b_id b) r
                                            then set_columns t ty cat pr b r else r) (rows d)\<rparr>)))))"
proof (intro conjI allI impI)
  show "update_params (JStr i) body = None \<longleftrightarrow> body = JUndefined \<or> body = JNull"
    by (rule update_params_none)
next
  assume "update_params (JStr i) body = None"
  then show "put_item env uid i body d = None"
    by (rule put_item_no_body)
next
  fix p
  assume p: "update_params (JStr i) body = Some p"
  assume "bind_update env p = None"
  then show "put_item env uid i body d =
         Some (status_json 500 (error_body ''Failed to update item''), d)"
    by (simp add: put_item_eq [OF p assms] sql_update_def)
next
  fix p b
  assume p: "update_params (JStr i) body = Some p"
  assume b: "bind_update env p = Some b"
    and "filter (matches (Some uid) (b_id b)) (rows d) = []"
  then show "put_item env uid i body d =
            Some (status_json 404 (error_body ''Item not found''), d)"
    by (simp add: put_item_eq [OF p assms] sql_update_def update_rows_none_owned)
next
  fix p b
  assume p: "update_params (JStr i) body = Some p"
  assume b: "bind_update env p = Some b"
    and ne: "filter (matches (Some uid) (b_id b)) (rows d) \<noteq> []"
    and nn: "b_text b = None \<or> b_type b = None \<or> b_category b = None \<or> b_priority b = None"
  from update_rows_not_null [OF ne nn] b
  show "put_item env uid i body d =
               Some (status_json 500 (error_body ''Failed to update item''), d)"
    by (simp add: put_item_eq [OF p assms] sql_update_def)
next
  fix p b t ty cat pr
  assume p: "update_params (JStr i) body = Some p"
  assume b: "bind_update env p = Some b"
    and ne: "filter (matches (Some uid) (b_id b)) (rows d) \<noteq> []"
    and v: "b_text b = Some t \<and> b_type b = Some ty \<and> b_category b = Some cat \<and>
             b_priority b = Some pr"
  from v have v': "b_text b = Some t" "b_type b = Some ty" "b_category b = Some cat"
    "b_priority b = Some pr" by simp_all
  obtain r rs where rr: "filter (matches (Some uid) (b_id b)) (rows d) = r # rs"
    using ne by (cases "filter (matches (Some uid) (b_id b)) (rows d)") auto
  from update_rows_replaced [OF v', of "Some uid" "rows d"] b rr
  show "put_item env uid i body d =
               Some (json (raw_row_json
                       (set_columns t ty cat pr b
                          (hd (filter (matches (Some uid) (b_id b)) (rows d))))),
                     d\<lparr>rows := map (\<lambda>r. if matches (Some uid) (b_id b) r
                                          then set_columns t ty cat pr b r else r) (rows d)\<rparr>)"
    by (simp add: put_item_eq [OF p assms] sql_update_def)
qed

theorem C2_update_item_witness:
  "put_item demoEnv ''alice'' ''9'' (demoItemJson 1 5) demoDb =
     Some (status_json 404 (error_body ''Item not found''), demoDb) \<and>
   put_item demoEnv ''alice'' ''1'' JUndefined demoDb = None \<and>
   map_option (\<lambda>x. (status (fst x), map sort_order (rows (snd x))))
     (put_item demoEnv ''alice'' ''1'' (demoItemJson 1 5) demoDb) = Some (200, [Some 5, Some 0])"
proof -
  have "(case update_params (JStr ''9'') (demoItemJson 1 5) of
           None \<Rightarrow> False
         | Some p \<Rightarrow>
             (case bind_update demoEnv p of
                None \<Rightarrow> False
              | Some b \<Rightarrow> List.null (filter (matches (Some ''alice'') (b_id b)) (rows demoDb))))"
    by code_simp
  then obtain p b where p: "update_params (JStr ''9'') (demoItemJson 1 5) = Some p"
    and b: "bind_update demoEnv p = Some b"
    and none: "filter (matches (Some ''alice'') (b_id b)) (rows demoDb) = []"
    by (auto split: option.splits)
  have t: "txn demoDb = None"
    by (simp add: demoDb_def)
  from C2_update_item [OF t, of "''9''" "demoItemJson 1 5" demoEnv "''alice''"] p b none
  have one: "put_item demoEnv ''alice'' ''9'' (demoItemJson 1 5) demoDb =
     Some (status_json 404 (error_body ''Item not found''), demoDb)"
    by blast
  from C2_update_item [OF t, of "''1''" JUndefined demoEnv "''alice''"]
  have none': "put_item demoEnv ''alice'' ''1'' JUndefined demoDb = None"
    by blast
  have two: "map_option (\<lambda>x. (status (fst x), map sort_order (rows (snd x))))
     (put_item demoEnv ''alice'' ''1'' (demoItemJson 1 5) demoDb) = Some (200, [Some 5, Some 0])"
    by code_simp
  from one none' two show ?thesis by blast
qed

text \<open>
  Claim C2 as stated fails when the statement is rejected: item 1 belongs to the
  caller, the body has no \<open>text\<close>, the UPDATE violates NOT NULL, and the route answers
  500 with the item unchanged: neither 404 nor a replacement.
\<close>

theorem C2_rejected_update_counterexample:
  "put_item demoEnv ''alice'' ''1'' (noTextJson 1) demoDb =
     Some (status_json 500 (error_body ''Failed to update item''), demoDb) \<and>
   map c_id (filter (\<lambda>r. user_id r = Some ''alice'') (rows demoDb)) = [1, 2]"
  by code_simp

subsection \<open>Defaults of created items\<close>

lemma store_row_fields:
  assumes "store_row u b tbl = Some (tbl', r)"
  shows "b_id b = Some (c_id r) \<and> b_text b = Some (c_text r) \<and>
         b_completed b = c_completed r \<and> b_created_at b = created_at r \<and>
         b_type b = Some (c_type r) \<and> b_category b = Some (c_category r) \<and>
         b_priority b = Some (c_priority r) \<and> b_due_date b = due_date r \<and>
         b_notes b = c_notes r \<and> b_sort_order b = sort_order r \<and> user_id r = u"
  using assms
  by (auto simp: store_row_def Let_def split: option.splits if_splits)

lemma bind_insert_fields:
  assumes "bind_insert env p = Some b"
  shows "bind_int env 64 (p_id p) = Some (b_id b) \<and>
         bind_text env (p_text p) = Some (b_text b) \<and>
         bind_bool env (p_completed p) = Some (b_completed b) \<and>
         bind_timestamptz env (p_created_at p) = Some (b_created_at b) \<and>
         bind_varchar env 10 (p_type p) = Some (b_type b) \<and>
         bind_varchar env 100 (p_category p) = Some (b_category b) \<and>
         bind_varchar env 10 (p_priority p) = Some (b_priority b) \<and>
         bind_date env (p_due_date p) = Some (b_due_date b) \<and>
         bind_text env (p_notes p) = Some (b_notes b) \<and>
         bind_int env 32 (p_sort_order p) = Some (b_sort_order b)"
  using assms
  by (auto simp: bind_insert_def split: Option.bind_splits)

lemma pg_insert_fields:
  assumes "pg_insert env uid p tbl = Some (tbl', r)"
  shows "bind_int env 64 (p_id p) = Some (Some (c_id r)) \<and>
         bind_text env (p_text p) = Some (Some (c_text r)) \<and>
         bind_bool env (p_completed p) = Some (c_completed r) \<and>
         bind_timestamptz env (p_created_at p) = Some (created_at r) \<and>
         bind_varchar env 10 (p_type p) = Some (Some (c_type r)) \<and>
         bind_varchar env 100 (p_category p) = Some (Some (c_category r)) \<and>
         bind_varchar env 10 (p_priority p) = Some (Some (c_priority r)) \<and>
         bind_date env (p_due_date p) = Some (due_date r) \<and>
         bind_text env (p_notes p) = Some (c_notes r) \<and>
         bind_int env 32 (p_sort_order p) = Some (sort_order r)"
proof -
  from assms obtain b where b: "bind_insert env p = Some b"
    and s: "store_row (Some uid) b tbl = Some (tbl', r)"
    by (auto simp: pg_insert_def split: Option.bind_splits)
  from bind_insert_fields [OF b] store_row_fields [OF s] show ?thesis
    by simp
qed

lemma drizzle_insert_fields:
  assumes "drizzle_insert env p tbl = Some (tbl', r)"
  shows "bind_bool env (p_completed p) = Some (c_completed r) \<and>
         (if p_created_at p = JUndefined then created_at r = Some (clock env)
          else bind_timestamptz env (p_created_at p) = Some (created_at r)) \<and>
         bind_varchar env 10 (p_type p) = Some (Some (c_type r)) \<and>
         bind_varchar env 100 (p_category p) = Some (Some (c_category r)) \<and>
         bind_varchar env 10 (p_priority p) = Some (Some (c_priority r)) \<and>
         bind_date env (p_due_date p) = Some (due_date r) \<and>
         bind_text env (p_notes p) = Some (c_notes r) \<and>
         bind_int env 32 (p_sort_order p) = Some (sort_order r)"
proof -
  from assms obtain b where b: "bind_insert env p = Some b"
    and s: "store_row None
              (if p_created_at p = JUndefined then b\<lparr>b_created_at := Some (clock env)\<rparr> else b)
              tbl = Some (tbl', r)"
    by (auto simp: drizzle_insert_def split: Option.bind_splits)
  from bind_insert_fields [OF b] store_row_fields [OF s] show ?thesis
    by (auto split: if_splits)
qed

lemma post_params_fields:
  assumes "post_params env item = Some p"
  shows "\<exists>c ca ty cat pr dd n so.
           property item ''completed'' = Some c \<and> property item ''createdAt'' = Some ca \<and>
           property item ''type'' = Some ty \<and> property item ''category'' = Some cat \<and>
           property item ''priority'' = Some pr \<and> property item ''dueDate'' = Some dd \<and>
           property item ''notes'' = Some n \<and> property item ''order'' = Some so \<and>
           p_completed p = js_or c (JBool False) \<and>
           p_created_at p = js_or ca (JStr (toISOString (clock env))) \<and>
           p_type p = js_or ty (JStr ''task'') \<and>
           p_category p = js_or cat (JStr ''personal'') \<and>
           p_priority p = js_or pr (JStr ''medium'') \<and>
           p_due_date p = js_or dd JNull \<and>
           p_notes p = js_or n (JStr '''') \<and>
           p_sort_order p = js_or so (JNum 0)"
  using assms
  by (auto simp: post_params_def split: Option.bind_splits)

lemma drizzle_values_fields:
  assumes "drizzle_values env item = Some p"
  shows "\<exists>c ca ty cat pr dd n so.
           property item ''completed'' = Some c \<and> property item ''createdAt'' = Some ca \<and>
           property item ''type'' = Some ty \<and> property item ''category'' = Some cat \<and>
           property item ''priority'' = Some pr \<and> property item ''dueDate'' = Some dd \<and>
           property item ''notes'' = Some n \<and> property item ''order'' = Some so \<and>
           p_completed p = js_or c (JBool False) \<and>
           (\<not> truthy ca \<longrightarrow> p_created_at p = JUndefined) \<and>
           p_type p = js_or ty (JStr ''task'') \<and>
           p_category p = js_or cat (JStr ''personal'') \<and>
           p_priority p = js_or pr (JStr ''medium'') \<and>
           p_due_date p = js_or dd JNull \<and>
           p_notes p = js_or n (JStr '''') \<and>
           p_sort_order p = js_nullish so (JNum 0)"
  using assms
  by (auto simp: drizzle_values_def split: Option.bind_splits if_splits)

lemma bind_defaults:
  "bind_bool env (JBool False) = Some (Some False)"
  "bind_varchar env 10 (JStr ''task'') = Some (Some ''task'')"
  "bind_varchar env 100 (JStr ''personal'') = Some (Some ''personal'')"
  "bind_varchar env 10 (JStr ''medium'') = Some (Some ''medium'')"
  "bind_date env JNull = Some None"
  "bind_text env (JStr '''') = Some (Some '''')"
  "bind_int env 32 (JNum 0) = Some (Some 0)"
  "bind_timestamptz env (JStr s) = map_option Some (timestamptz_in env (JStr s))"
  by (simp_all add: bind_bool_def bind_varchar_def bind_text_def bind_date_def bind_int_def
        bind_timestamptz_def in_range_def)

lemma pg_defaults:
  assumes pp: "post_params env item = Some p"
    and ins: "pg_insert env uid p tbl = Some (tbl', r)"
  shows "(\<forall>v. property item ''completed'' = Some v \<and> \<not> truthy v \<longrightarrow>
            p_completed p = JBool False \<and> c_completed r = Some False) \<and>
         (\<forall>v. property item ''type'' = Some v \<and> \<not> truthy v \<longrightarrow>
            p_type p = JStr ''task'' \<and> c_type r = ''task'') \<and>
         (\<forall>v. property item ''category'' = Some v \<and> \<not> truthy v \<longrightarrow>
            p_category p = JStr ''personal'' \<and> c_category r = ''personal'') \<and>
         (\<forall>v. property item ''priority'' = Some v \<and> \<not> truthy v \<longrightarrow>
            p_priority p = JStr ''medium'' \<and> c_priority r = ''medium'') \<and>
         (\<forall>v. property item ''dueDate'' = Some v \<and> \<not> truthy v \<longrightarrow>
            p_due_date p = JNull \<and> due_date r = None) \<and>
         (\<forall>v. property item ''notes'' = Some v \<and> \<not> truthy v \<longrightarrow>
            p_notes p = JStr '''' \<and> c_notes r = Some '''') \<and>
         (\<forall>v. property item ''order'' = Some v \<and> \<not> truthy v \<longrightarrow>
            p_sort_order p = JNum 0 \<and> sort_order r = Some 0) \<and>
         (\<forall>v. property item ''createdAt'' = Some v \<and> \<not> truthy v \<longrightarrow>
            p_created_at p = JStr (toISOString (clock env)) \<and>
            created_at r = timestamptz_in env (JStr (toISOString (clock env))))"
proof -
  from post_params_fields [OF pp] obtain c ca ty cat pr dd n so where
    f: "property item ''completed'' = Some c" "property item ''createdAt'' = Some ca"
       "property item ''type'' = Some ty" "property item ''category'' = Some cat"
       "property item ''priority'' = Some pr" "property item ''dueDate'' = Some dd"
       "property item ''notes'' = Some n" "property item ''order'' = Some so"
    and v: "p_completed p = js_or c (JBool False)"
       "p_created_at p = js_or ca (JStr (toISOString (clock env)))"
       "p_type p = js_or ty (JStr ''task'')"
       "p_category p = js_or cat (JStr ''personal'')"
       "p_priority p = js_or pr (JStr ''medium'')"
       "p_due_date p = js_or dd JNull"
       "p_notes p = js_or n (JStr '''')"
       "p_sort_order p = js_or so (JNum 0)"
    by blast
  note s = pg_insert_fields [OF ins]
  have 1: "\<not> truthy c \<Longrightarrow> p_completed p = JBool False \<and> c_completed r = Some False"
    using s v(1) by (simp add: js_or_def bind_defaults)
  have 2: "\<not> truthy ty \<Longrightarrow> p_type p = JStr ''task'' \<and> c_type r = ''task''"
    using s v(3) by (simp add: js_or_def bind_defaults)
  have 3: "\<not> truthy cat \<Longrightarrow> p_category p = JStr ''personal'' \<and> c_category r = ''personal''"
    using s v(4) by (simp add: js_or_def bind_defaults)
  have 4: "\<not> truthy pr \<Longrightarrow> p_priority p = JStr ''medium'' \<and> c_priority r = ''medium''"
    using s v(5) by (simp add: js_or_def bind_defaults)
  have 5: "\<not> truthy dd \<Longrightarrow> p_due_date p = JNull \<and> due_date r = None"
    using s v(6) by (simp add: js_or_def bind_defaults)
  have 6: "\<not> truthy n \<Longrightarrow> p_notes p = JStr '''' \<and> c_notes r = Some ''''"
    using s v(7) by (simp add: js_or_def bind_defaults)
  have 7: "\<not> truthy so \<Longrightarrow> p_sort_order p = JNum 0 \<and> sort_order r = Some 0"
    using s v(8) by (simp add: js_or_def bind_defaults)
  have 8: "\<not> truthy ca \<Longrightarrow> p_created_at p = JStr (toISOString (clock env)) \<and>
            created_at r = timestamptz_in env (JStr (toISOString (clock env)))"
  proof -
    assume "\<not> truthy ca"
    with v(2) have e: "p_created_at p = JStr (toISOString (clock env))"
      by (simp add: js_or_def)
    with s have "map_option Some (timestamptz_in env (JStr (toISOString (clock env))))
                   = Some (created_at r)"
      by (simp add: bind_defaults)
    then have "created_at r = timestamptz_in env (JStr (toISOString (clock env)))"
      by (cases "timestamptz_in env (JStr (toISOString (clock env)))") auto
    with e show ?thesis by simp
  qed
  from f 1 2 3 4 5 6 7 8 show ?thesis by simp
qed

lemma drizzle_defaults:
  assumes pp: "drizzle_values env item = Some p"
    and ins: "drizzle_insert env p tbl = Some (tbl', r)"
  shows "(\<forall>v. property item ''completed'' = Some v \<and> \<not> truthy v \<longrightarrow> c_completed r = Some False) \<and>
      (\<forall>v. property item ''type'' = Some v \<and> \<not> truthy v \<longrightarrow> c_type r = ''task'') \<and>
      (\<forall>v. property item ''category'' = Some v \<and> \<not> truthy v \<longrightarrow> c_category r = ''personal'') \<and>
      (\<forall>v. property item ''priority'' = Some v \<and> \<not> truthy v \<longrightarrow> c_priority r = ''medium'') \<and>
      (\<forall>v. property item ''dueDate'' = Some v \<and> \<not> truthy v \<longrightarrow> due_date r = None) \<and>
      (\<forall>v. property item ''notes'' = Some v \<and> \<not> truthy v \<longrightarrow> c_notes r = Some '''') \<and>
      (\<forall>v. property item ''order'' = Some v \<and> (v = JUndefined \<or> v = JNull \<or> v = JNum 0) \<longrightarrow>
         sort_order r = Some 0) \<and>
      (\<forall>v. property item ''createdAt'' = Some v \<and> \<not> truthy v \<longrightarrow>
         created_at r = Some (clock env))"
proof -
  from drizzle_values_fields [OF pp] obtain c ca ty cat pr dd n so where
    f: "property item ''completed'' = Some c" "property item ''createdAt'' = Some ca"
       "property item ''type'' = Some ty" "property item ''category'' = Some cat"
       "property item ''priority'' = Some pr" "property item ''dueDate'' = Some dd"
       "property item ''notes'' = Some n" "property item ''order'' = Some so"
    and v: "p_completed p = js_or c (JBool False)"
       "\<not> truthy ca \<longrightarrow> p_created_at p = JUndefined"
       "p_type p = js_or ty (JStr ''task'')"
       "p_category p = js_or cat (JStr ''personal'')"
       "p_priority p = js_or pr (JStr ''medium'')"
       "p_due_date p = js_or dd JNull"
       "p_notes p = js_or n (JStr '''')"
       "p_sort_order p = js_nullish so (JNum 0)"
    by blast
  note s = drizzle_insert_fields [OF ins]
  have 1: "\<not> truthy c \<Longrightarrow> c_completed r = Some False"
    using s v(1) by (simp add: js_or_def bind_defaults)
  have 2: "\<not> truthy ty \<Longrightarrow> c_type r = ''task''"
    using s v(3) by (simp add: js_or_def bind_defaults)
  have 3: "\<not> truthy cat \<Longrightarrow> c_category r = ''personal''"
    using s v(4) by (simp add: js_or_def bind_defaults)
  have 4: "\<not> truthy pr \<Longrightarrow> c_priority r = ''medium''"
    using s v(5) by (simp add: js_or_def bind_defaults)
  have 5: "\<not> truthy dd \<Longrightarrow> due_date r = None"
    using s v(6) by (simp add: js_or_def bind_defaults)
  have 6: "\<not> truthy n \<Longrightarrow> c_notes r = Some ''''"
    using s v(7) by (simp add: js_or_def bind_defaults)
  have 7: "so = JUndefined \<or> so = JNull \<or> so = JNum 0 \<Longrightarrow> sort_order r = Some 0"
    using s v(8) by (auto simp: js_nullish_def bind_defaults)
  have 8: "\<not> truthy ca \<Longrightarrow> created_at r = Some (clock env)"
    using s v(2) by simp
  from f 1 2 3 4 5 6 7 8 show ?thesis by simp
qed

lemma drizzle_rejects_order:
  assumes pp: "drizzle_values env item = Some q"
    and o: "property item ''order'' = Some v"
    and v: "v = JBool False \<or> v = JStr ''''"
    and i: "int_in env v = None"
  shows "drizzle_insert env q tbl = None"
proof -
  from drizzle_values_fields [OF pp] o have "p_sort_order q = js_nullish v (JNum 0)"
    by auto
  with v have "p_sort_order q = v"
    by (auto simp: js_nullish_def)
  with v i have "bind_int env 32 (p_sort_order q) = None"
    by (auto simp: bind_int_def)
  with bind_insert_fields [of env q] have "bind_insert env q = None"
    by (cases "bind_insert env q") auto
  then show ?thesis
    by (simp add: drizzle_insert_def)
qed

lemma drizzle_post_items_rejected:
  assumes pp: "drizzle_values env item = Some q"
    and o: "property item ''order'' = Some v"
    and v: "v = JBool False \<or> v = JStr ''''"
    and i: "int_in env v = None"
  shows "drizzle_post_items env item d =
           (status_json 500 (error_body ''Failed to create items''), d)"
proof -
  from o v have "as_item_list item = [item]"
    by (cases item) (auto simp: as_item_list_def)
  moreover have "exec (drizzle_insert env q) d = None"
    using drizzle_rejects_order [OF pp o v i]
    by (simp add: exec_def split: option.splits)
  ultimately show ?thesis
    using pp by (simp add: drizzle_post_items_def)
qed

text \<open>
Claim C10 (as amended). For an item supplied to the create route and stored by it,
  every optional field that is omitted or falsy is stored with its default:
  \<open>completed\<close> false, \<open>type\<close> task, \<open>category\<close> personal, \<open>priority\<close> medium,
  \<open>dueDate\<close> NULL, \<open>notes\<close> empty (so a supplied empty due date ends as NULL), and
  \<open>createdAt\<close> the current time: in the pg route the ISO text of the clock as the
  database reads it, in the drizzle route the column default \<open>NOW()\<close>. For \<open>order\<close>
  the two routes differ. The pg route defaults it with \<open>||\<close>: every falsy \<open>order\<close>,
  a supplied 0 included, is sent and stored as 0. The drizzle route defaults it with
  \<open>??\<close>: an \<open>order\<close> that is omitted, \<open>null\<close> or 0 is stored as 0, but the falsy
  values \<open>false\<close> and the empty text are sent as they are, and when the database
  refuses them for the INTEGER column the INSERT is rejected and no row is stored; a
  request whose body is that item is answered 500 and leaves the table as it was.
\<close>

theorem C10_create_defaults:
  "(post_params env item = Some p \<and> pg_insert env uid p tbl = Some (tbl', r) \<longrightarrow>
      (\<forall>v. property item ''completed'' = Some v \<and> \<not> truthy v \<longrightarrow>
         p_completed p = JBool False \<and> c_completed r = Some False) \<and>
      (\<forall>v. property item ''type'' = Some v \<and> \<not> truthy v \<longrightarrow>
         p_type p = JStr ''task'' \<and> c_type r = ''task'') \<and>
      (\<forall>v. property item ''category'' = Some v \<and> \<not> truthy v \<longrightarrow>
         p_category p = JStr ''personal'' \<and> c_category r = ''personal'') \<and>
      (\<forall>v. property item ''priority'' = Some v \<and> \<not> truthy v \<longrightarrow>
         p_priority p = JStr ''medium'' \<and> c_priority r = ''medium'') \<and>
      (\<forall>v. property item ''dueDate'' = Some v \<and> \<not> truthy v \<longrightarrow>
         p_due_date p = JNull \<and> due_date r = None) \<and>
      (\<forall>v. property item ''notes'' = Some v \<and> \<not> truthy v \<longrightarrow>
         p_notes p = JStr '''' \<and> c_notes r = Some '''') \<and>
      (\<forall>v. property item ''order'' = Some v \<and> \<not> truthy v \<longrightarrow>
         p_sort_order p = JNum 0 \<and> sort_order r = Some 0) \<and>
      (\<forall>v. property item ''createdAt'' = Some v \<and> \<not> truthy v \<longrightarrow>
         p_created_at p = JStr (toISOString (clock env)) \<and>
         created_at r = timestamptz_in env (JStr (toISOString (clock env))))) \<and>
   (drizzle_values env item = Some q \<and> drizzle_insert env q tbl = Some (tbl'', r') \<longrightarrow>
      (\<forall>v. property item ''completed'' = Some v \<and> \<not> truthy v \<longrightarrow> c_completed r' = Some False) \<and>
      (\<forall>v. property item ''type'' = Some v \<and> \<not> truthy v \<longrightarrow> c_type r' = ''task'') \<and>
      (\<forall>v. property item ''category'' = Some v \<and> \<not> truthy v \<longrightarrow> c_category r' = ''personal'') \<and>
      (\<forall>v. property item ''priority'' = Some v \<and> \<not> truthy v \<longrightarrow> c_priority r' = ''medium'') \<and>
      (\<forall>v. property item ''dueDate'' = Some v \<and> \<not> truthy v \<longrightarrow> due_date r' = None) \<and>
      (\<forall>v. property item ''notes'' = Some v \<and> \<not> truthy v \<longrightarrow> c_notes r' = Some '''') \<and>
      (\<forall>v. property item ''order'' = Some v \<and> (v = JUndefined \<or> v = JNull \<or> v = JNum 0) \<longrightarrow>
         sort_order r' = Some 0) \<and>
      (\<forall>v. property item ''createdAt'' = Some v \<and> \<not> truthy v \<longrightarrow>
         created_at r' = Some (clock env))) \<and>
   (\<forall>v. drizzle_values env item = Some q \<and> property item ''order'' = Some v \<and>
        (v = JBool False \<or> v = JStr '''') \<and> int_in env v = None \<longrightarrow>
      drizzle_insert env q tbl = None \<and>
      drizzle_post_items env item d =
        (status_json 500 (error_body ''Failed to create items''), d))"
proof (intro conjI)
  show "post_params env item = Some p \<and> pg_insert env uid p tbl = Some (tbl', r) \<longrightarrow>
      (\<forall>v. property item ''completed'' = Some v \<and> \<not> truthy v \<longrightarrow>
         p_completed p = JBool False \<and> c_completed r = Some False) \<and>
      (\<forall>v. property item ''type'' = Some v \<and> \<not> truthy v \<longrightarrow>
         p_type p = JStr ''task'' \<and> c_type r = ''task'') \<and>
      (\<forall>v. property item ''category'' = Some v \<and> \<not> truthy v \<longrightarrow>
         p_category p = JStr ''personal'' \<and> c_category r = ''personal'') \<and>
      (\<forall>v. property item ''priority'' = Some v \<and> \<not> truthy v \<longrightarrow>
         p_priority p = JStr ''medium'' \<and> c_priority r = ''medium'') \<and>
      (\<forall>v. property item ''dueDate'' = Some v \<and> \<not> truthy v \<longrightarrow>
         p_due_date p = JNull \<and> due_date r = None) \<and>
      (\<forall>v. property item ''notes'' = Some v \<and> \<not> truthy v \<longrightarrow>
         p_notes p = JStr '''' \<and> c_notes r = Some '''') \<and>
      (\<forall>v. property item ''order'' = Some v \<and> \<not> truthy v \<longrightarrow>
         p_sort_order p = JNum 0 \<and> sort_order r = Some 0) \<and>
      (\<forall>v. property item ''createdAt'' = Some v \<and> \<not> truthy v \<longrightarrow>
         p_created_at p = JStr (toISOString (clock env)) \<and>
         created_at r = timestamptz_in env (JStr (toISOString (clock env))))"
  proof
    assume a: "post_params env item = Some p \<and> pg_insert env uid p tbl = Some (tbl', r)"
    then have "post_params env item = Some p" "pg_insert env uid p tbl = Some (tbl', r)"
      by simp_all
    then show "(\<forall>v. property item ''completed'' = Some v \<and> \<not> truthy v \<longrightarrow>
         p_completed p = JBool False \<and> c_completed r = Some False) \<and>
      (\<forall>v. property item ''type'' = Some v \<and> \<not> truthy v \<longrightarrow>
         p_type p = JStr ''task'' \<and> c_type r = ''task'') \<and>
      (\<forall>v. property item ''category'' = Some v \<and> \<not> truthy v \<longrightarrow>
         p_category p = JStr ''personal'' \<and> c_category r = ''personal'') \<and>
      (\<forall>v. property item ''priority'' = Some v \<and> \<not> truthy v \<longrightarrow>
         p_priority p = JStr ''medium'' \<and> c_priority r = ''medium'') \<and>
      (\<forall>v. property item ''dueDate'' = Some v \<and> \<not> truthy v \<longrightarrow>
         p_due_date p = JNull \<and> due_date r = None) \<and>
      (\<forall>v. property item ''notes'' = Some v \<and> \<not> truthy v \<longrightarrow>
         p_notes p = JStr '''' \<and> c_notes r = Some '''') \<and>
      (\<forall>v. property item ''order'' = Some v \<and> \<not> truthy v \<longrightarrow>
         p_sort_order p = JNum 0 \<and> sort_order r = Some 0) \<and>
      (\<forall>v. property item ''createdAt'' = Some v \<and> \<not> truthy v \<longrightarrow>
         p_created_at p = JStr (toISOString (clock env)) \<and>
         created_at r = timestamptz_in env (JStr (toISOString (clock env))))"
      by (rule pg_defaults)
  qed
next
  show "drizzle_values env item = Some q \<and> drizzle_insert env q tbl = Some (tbl'', r') \<longrightarrow>
      (\<forall>v. property item ''completed'' = Some v \<and> \<not> truthy v \<longrightarrow> c_completed r' = Some False) \<and>
      (\<forall>v. property item ''type'' = Some v \<and> \<not> truthy v \<longrightarrow> c_type r' = ''task'') \<and>
      (\<forall>v. property item ''category'' = Some v \<and> \<not> truthy v \<longrightarrow> c_category r' = ''personal'') \<and>
      (\<forall>v. property item ''priority'' = Some v \<and> \<not> truthy v \<longrightarrow> c_priority r' = ''medium'') \<and>
      (\<forall>v. property item ''dueDate'' = Some v \<and> \<not> truthy v \<longrightarrow> due_date r' = None) \<and>
      (\<forall>v. property item ''notes'' = Some v \<and> \<not> truthy v \<longrightarrow> c_notes r' = Some '''') \<and>
      (\<forall>v. property item ''order'' = Some v \<and> (v = JUndefined \<or> v = JNull \<or> v = JNum 0) \<longrightarrow>
         sort_order r' = Some 0) \<and>
      (\<forall>v. property item ''createdAt'' = Some v \<and> \<not> truthy v \<longrightarrow>
         created_at r' = Some (clock env))"
  proof
    assume "drizzle_values env item = Some q \<and> drizzle_insert env q tbl = Some (tbl'', r')"
    then have "drizzle_values env item = Some q" "drizzle_insert env q tbl = Some (tbl'', r')"
      by simp_all
    then show "(\<forall>v. property item ''completed'' = Some v \<and> \<not> truthy v \<longrightarrow> c_completed r' = Some False) \<and>
      (\<forall>v. property item ''type'' = Some v \<and> \<not> truthy v \<longrightarrow> c_type r' = ''task'') \<and>
      (\<forall>v. property item ''category'' = Some v \<and> \<not> truthy v \<longrightarrow> c_category r' = ''personal'') \<and>
      (\<forall>v. property item ''priority'' = Some v \<and> \<not> truthy v \<longrightarrow> c_priority r' = ''medium'') \<and>
      (\<forall>v. property item ''dueDate'' = Some v \<and> \<not> truthy v \<longrightarrow> due_date r' = None) \<and>
      (\<forall>v. property item ''notes'' = Some v \<and> \<not> truthy v \<longrightarrow> c_notes r' = Some '''') \<and>
      (\<forall>v. property item ''order'' = Some v \<and> (v = JUndefined \<or> v = JNull \<or> v = JNum 0) \<longrightarrow>
         sort_order r' = Some 0) \<and>
      (\<forall>v. property item ''createdAt'' = Some v \<and> \<not> truthy v \<longrightarrow>
         created_at r' = Some (clock env))"
      by (rule drizzle_defaults)
  qed
next
  show "\<forall>v. drizzle_values env item = Some q \<and> property item ''order'' = Some v \<and>
        (v = JBool False \<or> v = JStr '''') \<and> int_in env v = None \<longrightarrow>
      drizzle_insert env q tbl = None \<and>
      drizzle_post_items env item d =
        (status_json 500 (error_body ''Failed to create items''), d)"
    using drizzle_rejects_order drizzle_post_items_rejected by blast
qed

theorem C10_create_defaults_witness:
  "map_option (\<lambda>p. map_option (\<lambda>x. (sort_order (snd x), due_date (snd x), c_type (snd x)))
                       (pg_insert demoEnv ''alice'' p []))
     (post_params demoEnv sparseJson) = Some (Some (Some 0, None, ''task'')) \<and>
   map_option (\<lambda>q. map_option (\<lambda>x. (sort_order (snd x), due_date (snd x), c_type (snd x),
                                       created_at (snd x)))
                       (drizzle_insert demoEnv q []))
     (drizzle_values demoEnv sparseJson) = Some (Some (Some 0, None, ''task'', Some demoNow)) \<and>
   map_option (\<lambda>q. drizzle_insert demoEnv q []) (drizzle_values demoEnv falseOrderJson)
     = Some None \<and>
   drizzle_post_items demoEnv falseOrderJson demoDb =
     (status_json 500 (error_body ''Failed to create items''), demoDb)"
proof -
  have "(case post_params demoEnv sparseJson of
           None \<Rightarrow> False
         | Some p \<Rightarrow> (case pg_insert demoEnv ''alice'' p [] of None \<Rightarrow> False | Some x \<Rightarrow> True))"
    by code_simp
  then obtain p tbl' r where p: "post_params demoEnv sparseJson = Some p"
    and i: "pg_insert demoEnv ''alice'' p [] = Some (tbl', r)"
    by (auto split: option.splits)
  have "(case drizzle_values demoEnv sparseJson of
           None \<Rightarrow> False
         | Some q \<Rightarrow> (case drizzle_insert demoEnv q [] of None \<Rightarrow> False | Some x \<Rightarrow> True))"
    by code_simp
  then obtain q tbl'' r' where q: "drizzle_values demoEnv sparseJson = Some q"
    and j: "drizzle_insert demoEnv q [] = Some (tbl'', r')"
    by (auto split: option.splits)
  have "drizzle_values demoEnv falseOrderJson \<noteq> None"
    by code_simp
  then obtain q' where q': "drizzle_values demoEnv falseOrderJson = Some q'"
    by auto
  have o: "property sparseJson ''order'' = Some (JNum 0) \<and> \<not> truthy (JNum 0)"
    by (simp add: sparseJson_def)
  have d: "property sparseJson ''dueDate'' = Some (JStr '''') \<and> \<not> truthy (JStr '''')"
    by (simp add: sparseJson_def)
  have t: "property sparseJson ''type'' = Some JUndefined \<and> \<not> truthy JUndefined"
    by (simp add: sparseJson_def)
  have c: "property sparseJson ''createdAt'' = Some JUndefined \<and> \<not> truthy JUndefined"
    by (simp add: sparseJson_def)
  have f: "property falseOrderJson ''order'' = Some (JBool False)"
    by (simp add: falseOrderJson_def)
  have n: "int_in demoEnv (JBool False) = None"
    by (simp add: demoEnv_def)
  have k: "clock demoEnv = demoNow"
    by (simp add: demoEnv_def)
  note inst = C10_create_defaults [of demoEnv sparseJson p "''alice''" "[]" tbl' r q tbl'' r']
  from inst p i o d t
  have one: "sort_order r = Some 0 \<and> due_date r = None \<and> c_type r = ''task''"
    by blast
  from inst q j o d t c
  have two: "sort_order r' = Some 0 \<and> due_date r' = None \<and> c_type r' = ''task'' \<and>
             created_at r' = Some (clock demoEnv)"
    by blast
  from C10_create_defaults [of demoEnv falseOrderJson _ _ "[]" _ _ q' _ _ demoDb] q' f n
  have three: "drizzle_insert demoEnv q' [] = None"
    and four: "drizzle_post_items demoEnv falseOrderJson demoDb =
                 (status_json 500 (error_body ''Failed to create items''), demoDb)"
    by blast+
  from one two three four p i q j q' k show ?thesis by simp
qed

text \<open>
  Claim C10 as stated fails in the drizzle route for an \<open>order\<close> that is falsy and
  neither omitted, \<open>null\<close> nor 0: \<open>order: false\<close> is not coerced to 0 but sent to the
  database, which refuses it for the INTEGER column; the route answers 500 and no row
  is stored, while the pg route stores the same item with order 0.
\<close>

theorem C10_falsy_order_counterexample:
  "property falseOrderJson ''order'' = Some (JBool False) \<and> \<not> truthy (JBool False) \<and>
   drizzle_post_items demoEnv falseOrderJson emptyDb =
     (status_json 500 (error_body ''Failed to create items''), emptyDb) \<and>
   status (fst (post_items demoEnv ''alice'' falseOrderJson emptyDb)) = 200 \<and>
   map sort_order (rows (snd (post_items demoEnv ''alice'' falseOrderJson emptyDb))) = [Some 0]"
  by code_simp

subsection \<open>The validated variant\<close>

lemma issues_at_empty: "issues_at k es = [] \<longleftrightarrow> es = []"
  by (simp add: issues_at_def)

lemma reports_valid: "reports s \<Longrightarrow> issues_of (s v) = [] \<Longrightarrow> \<not> is_aborted (s v) \<and> \<not> is_dirty (s v)"
  by (auto simp: reports_def is_aborted_def is_dirty_def)

lemma reports_z_string: "reports (z_string checks)"
  by (auto simp: reports_def z_string_def checked_def issues_of_def split: jsval.splits if_splits)

lemma reports_z_int: "reports (z_int checks)"
  by (auto simp: reports_def z_int_def checked_def issues_of_def split: jsval.splits if_splits)

lemma reports_z_boolean: "reports z_boolean"
  by (auto simp: reports_def z_boolean_def issues_of_def split: jsval.splits)

lemma reports_z_enum: "reports (z_enum xs)"
  by (auto simp: reports_def z_enum_def issues_of_def split: jsval.splits if_splits)

lemma reports_z_optional: "reports s \<Longrightarrow> reports (z_optional s)"
  by (simp add: reports_def z_optional_def)

lemma reports_z_nullable: "reports s \<Longrightarrow> reports (z_nullable s)"
  by (simp add: reports_def z_nullable_def)

lemma reports_z_default: "reports s \<Longrightarrow> reports (z_default s d)"
  by (simp add: reports_def z_default_def)

lemma merged_valid:
  assumes "\<forall>r \<in> set rs. \<not> is_aborted r \<and> \<not> is_dirty r"
  shows "merged False rs es v = Valid v"
  using assms by (simp add: merged_def list_ex_iff)

lemma issues_of_merged:
  "issues_of (merged dirty rs es v) = [] \<Longrightarrow> es = [] \<or> merged dirty rs es v = Valid v"
  by (auto simp: merged_def issues_of_def split: if_splits)

lemma reports_z_object:
  assumes "\<forall>f \<in> set fs. reports (snd f)"
  shows "reports (z_object fs)"
  unfolding reports_def
proof (intro allI impI)
  fix v
  assume e: "issues_of (z_object fs v) = []"
  show "\<exists>r. z_object fs v = Valid r"
  proof (cases v)
    case (JObj kvs)
    define rs where "rs = parse_fields fs kvs"
    from e JObj have m: "issues_of (merged False (map snd rs) (field_issues rs)
                                      (JObj (field_values rs))) = []"
      by (simp add: z_object_def rs_def Let_def)
    have z: "z_object fs v =
               merged False (map snd rs) (field_issues rs) (JObj (field_values rs))"
      using JObj by (simp add: z_object_def rs_def Let_def)
    from issues_of_merged [OF m] show ?thesis
    proof
      assume none: "field_issues rs = []"
      have "\<forall>r \<in> set (map snd rs). \<not> is_aborted r \<and> \<not> is_dirty r"
      proof
        fix r
        assume "r \<in> set (map snd rs)"
        then obtain k s where f: "(k, s) \<in> set fs"
          and r: "r = s (case map_of kvs k of None \<Rightarrow> JUndefined | Some x \<Rightarrow> x)"
          by (auto simp: rs_def parse_fields_def)
        from f have "(k, r) \<in> set rs"
          by (force simp: rs_def parse_fields_def r)
        with none have "issues_at k (issues_of r) = []"
          by (force simp: field_issues_def)
        then have "issues_of r = []"
          by (simp add: issues_at_empty)
        moreover from f assms have "reports s" by force
        ultimately show "\<not> is_aborted r \<and> \<not> is_dirty r"
          unfolding r by (intro reports_valid)
      qed
      from merged_valid [OF this] z show ?thesis by simp
    next
      assume "merged False (map snd rs) (field_issues rs) (JObj (field_values rs))
                = Valid (JObj (field_values rs))"
      with z show ?thesis by simp
    qed
  qed (use e in \<open>simp_all add: z_object_def issues_of_def\<close>)
qed

lemma elem_issues_empty:
  assumes "elem_issues rs = []" and "r \<in> set rs"
  shows "issues_of r = []"
proof -
  from assms(2) obtain i where "i < length rs" "rs ! i = r"
    by (auto simp: in_set_conv_nth)
  then have "(i, r) \<in> set (enumerate 0 rs)"
    by (simp add: in_set_enumerate_eq)
  moreover from assms(1)
  have "\<forall>x \<in> set (enumerate 0 rs). issues_at (decimal (fst x)) (issues_of (snd x)) = []"
    unfolding elem_issues_def concat_eq_Nil_conv
    by (simp add: case_prod_beta del: decimal.simps)
  ultimately have "issues_at (decimal i) (issues_of r) = []"
    by (auto simp del: decimal.simps)
  then show ?thesis
    by (simp only: issues_at_empty)
qed

lemma reports_z_array:
  assumes "reports s"
  shows "reports (z_array s lo hi)"
  unfolding reports_def
proof (intro allI impI)
  fix v
  assume e: "issues_of (z_array s lo hi v) = []"
  show "\<exists>r. z_array s lo hi v = Valid r"
  proof (cases v)
    case (JArr xs)
    define sizes where "sizes = size_issues lo hi (length xs)"
    define rs where "rs = map s xs"
    have z: "z_array s lo hi v =
               merged (sizes \<noteq> []) rs (sizes @ elem_issues rs) (JArr (map value_of rs))"
      using JArr by (simp add: z_array_def rs_def sizes_def Let_def)
    with e have m: "issues_of (merged (sizes \<noteq> []) rs (sizes @ elem_issues rs)
                                  (JArr (map value_of rs))) = []"
      by simp
    from issues_of_merged [OF m] show ?thesis
    proof
      assume none: "sizes @ elem_issues rs = []"
      then have s0: "sizes = []" and e0: "elem_issues rs = []" by simp_all
      have "\<forall>r \<in> set rs. \<not> is_aborted r \<and> \<not> is_dirty r"
      proof
        fix r
        assume r: "r \<in> set rs"
        from elem_issues_empty [OF e0 r] have i: "issues_of r = []" .
        from r obtain x where "r = s x" by (auto simp: rs_def)
        with i reports_valid [OF assms, of x] show "\<not> is_aborted r \<and> \<not> is_dirty r"
          by simp
      qed
      from merged_valid [OF this] z s0 show ?thesis by simp
    next
      assume "merged (sizes \<noteq> []) rs (sizes @ elem_issues rs) (JArr (map value_of rs))
                = Valid (JArr (map value_of rs))"
      with z show ?thesis by simp
    qed
  qed (use e in \<open>simp_all add: z_array_def issues_of_def\<close>)
qed

lemma reports_z_union:
  assumes "reports a" and "reports b"
  shows "reports (z_union a b)"
  unfolding reports_def
proof (intro allI impI)
  fix v
  assume e: "issues_of (z_union a b v) = []"
  from assms have "issues_of (a v) = [] \<longrightarrow> (\<exists>r. a v = Valid r)"
    "issues_of (b v) = [] \<longrightarrow> (\<exists>r. b v = Valid r)"
    by (simp_all add: reports_def)
  with e show "\<exists>r. z_union a b v = Valid r"
    by (cases "a v"; cases "b v")
       (auto simp: z_union_def issues_of_def is_dirty_def split: if_splits)
qed

lemma reports_itemSchema: "reports itemSchema"
  unfolding itemSchema_def
  by (intro reports_z_object)
     (simp add: reports_z_string reports_z_int reports_z_boolean reports_z_enum
        reports_z_optional reports_z_nullable reports_z_default)

lemma reports_itemUpdateSchema: "reports itemUpdateSchema"
  unfolding itemUpdateSchema_def
  by (intro reports_z_object)
     (simp add: reports_z_string reports_z_int reports_z_boolean reports_z_enum
        reports_z_optional reports_z_nullable reports_z_default)

lemma parse_issues:
  assumes "reports s" and "parse s v = Inl es"
  shows "es \<noteq> []"
proof
  assume "es = []"
  with assms(2) have "issues_of (s v) = []" and "\<not> (\<exists>r. s v = Valid r)"
    by (auto simp: parse_def issues_of_def split: parsed.splits)
  with assms(1) show False
    by (simp add: reports_def)
qed

lemma items_schemas_issues:
  assumes "schema \<in> set items_schemas" and "parse schema v = Inl es"
  shows "es \<noteq> []"
proof -
  from assms(1) have "reports schema"
    by (auto simp: items_schemas_def post_schema_def bulk_schema_def
          intro: reports_z_union reports_z_array reports_itemSchema reports_itemUpdateSchema)
  from parse_issues [OF this assms(2)] show ?thesis .
qed

text \<open>
  The union of the create route: an item that fails only a check is reported with the
  issue of that check, under the name of its field; an item that lacks a required field
  with the single issue of the union.
\<close>

lemma post_schema_details:
  "parse post_schema emptyTextJson = Inl [([''text''], ''too_small'')] \<and>
   parse post_schema badBody = Inl [([], ''invalid_union'')]"
  by code_simp

lemma claim_rows_owned:
  "\<forall>r \<in> set tbl. user_id r \<noteq> None \<Longrightarrow> claim_rows uid tbl = tbl"
  by (induction tbl) (simp_all add: claim_rows_def)

lemma database_claim_unclaimed:
  "database (claim_unclaimed uid a) =
     (if unclaimedDataClaimed a then database a
      else (database a)\<lparr>rows := claim_rows uid (rows (database a))\<rparr>)"
proof (cases "filter (\<lambda>r. user_id r = None) (rows (database a)) = []")
  case True
  then have "\<forall>r \<in> set (rows (database a)). user_id r \<noteq> None"
    by (simp add: filter_empty_conv)
  then have "claim_rows uid (rows (database a)) = rows (database a)"
    by (rule claim_rows_owned)
  with True show ?thesis
    by (simp add: claim_unclaimed_def Let_def)
next
  case False
  then show ?thesis
    by (simp add: claim_unclaimed_def Let_def)
qed

lemma claim_rows_frame:
  "length (claim_rows uid tbl) = length tbl \<and>
   (\<forall>j < length tbl. (claim_rows uid tbl ! j)\<lparr>user_id := user_id (tbl ! j)\<rparr> = tbl ! j)"
  by (simp add: claim_rows_def)

text \<open>
Claim C6 (as amended). Take a request to a validated items route whose body fails the
  schema of the route, whatever the route handler is. The list of validation details is
  not empty. If the request has no session, Clerk's \<open>requireAuth\<close> answers it before
  validation and nothing changes. If it has one, the answer is 400 with the list of
  validation details, and the handler is not run, so no statement of it reaches the
  database. The database is then as the claiming middleware, which runs before
  validation, leaves it: unchanged once the claim has been made or when no row is
  without an owner, and otherwise with the ownerless rows assigned to the caller.
\<close>

theorem C6_validation_rejects:
  assumes "schema \<in> set items_schemas"
    and "parse schema (req_body req) = Inl es"
  shows "es \<noteq> [] \<and>
         status (validation_failed es) = 400 \<and>
         (req_auth req = None \<longrightarrow> api_route denied schema handler req a = (denied, a)) \<and>
         (\<forall>uid. req_auth req = Some uid \<longrightarrow>
            api_route denied schema handler req a =
              (validation_failed es, claim_unclaimed uid a) \<and>
            database (claim_unclaimed uid a) =
              (if unclaimedDataClaimed a then database a
               else (database a)\<lparr>rows := claim_rows uid (rows (database a))\<rparr>) \<and>
            (unclaimedDataClaimed a \<or> (\<forall>r \<in> set (rows (database a)). user_id r \<noteq> None) \<longrightarrow>
               database (claim_unclaimed uid a) = database a))"
proof (intro conjI allI impI)
  show "es \<noteq> []"
    using assms by (rule items_schemas_issues)
  show "status (validation_failed es) = 400"
    by (simp add: validation_failed_def status_json_def)
next
  assume "req_auth req = None"
  then show "api_route denied schema handler req a = (denied, a)"
    by (simp add: api_route_def)
next
  fix uid
  assume "req_auth req = Some uid"
  with assms(2)
  show "api_route denied schema handler req a = (validation_failed es, claim_unclaimed uid a)"
    by (simp add: api_route_def)
next
  fix uid
  show "database (claim_unclaimed uid a) =
          (if unclaimedDataClaimed a then database a
           else (database a)\<lparr>rows := claim_rows uid (rows (database a))\<rparr>)"
    by (rule database_claim_unclaimed)
next
  fix uid
  assume "unclaimedDataClaimed a \<or> (\<forall>r \<in> set (rows (database a)). user_id r \<noteq> None)"
  then show "database (claim_unclaimed uid a) = database a"
    by (auto simp: database_claim_unclaimed claim_rows_owned)
qed

theorem C6_validation_rejects_witness:
  "validated_post_items demoEnv signInRedirect
     \<lparr>req_auth = Some ''alice'', req_body = badBody\<rparr> settledApp =
     (validation_failed [([], ''invalid_union'')], settledApp) \<and>
   validated_post_items demoEnv signInRedirect
     \<lparr>req_auth = Some ''alice'', req_body = emptyTextJson\<rparr> settledApp =
     (validation_failed [([''text''], ''too_small'')], settledApp) \<and>
   validated_post_items demoEnv signInRedirect
     \<lparr>req_auth = None, req_body = badBody\<rparr> freshApp = (signInRedirect, freshApp)"
proof -
  have s: "post_schema \<in> set items_schemas"
    by (simp add: items_schemas_def)
  have p: "\<And>u. parse post_schema (req_body \<lparr>req_auth = u, req_body = badBody\<rparr>)
             = Inl [([], ''invalid_union'')]"
    using post_schema_details by simp
  have q: "parse post_schema (req_body \<lparr>req_auth = Some ''alice'', req_body = emptyTextJson\<rparr>)
             = Inl [([''text''], ''too_small'')]"
    using post_schema_details by simp
  have c: "claim_unclaimed ''alice'' settledApp = settledApp"
    by (simp add: claim_unclaimed_def settledApp_def)
  from C6_validation_rejects [OF s p, of "Some ''alice''" signInRedirect
         "\<lambda>uid body. on_database (post_items demoEnv uid body)" settledApp] c
  have one: "validated_post_items demoEnv signInRedirect
     \<lparr>req_auth = Some ''alice'', req_body = badBody\<rparr> settledApp =
     (validation_failed [([], ''invalid_union'')], settledApp)"
    by (simp add: validated_post_items_def)
  from C6_validation_rejects [OF s q, of signInRedirect
         "\<lambda>uid body. on_database (post_items demoEnv uid body)" settledApp] c
  have two: "validated_post_items demoEnv signInRedirect
     \<lparr>req_auth = Some ''alice'', req_body = emptyTextJson\<rparr> settledApp =
     (validation_failed [([''text''], ''too_small'')], settledApp)"
    by (simp add: validated_post_items_def)
  from C6_validation_rejects [OF s p, of None signInRedirect
         "\<lambda>uid body. on_database (post_items demoEnv uid body)" freshApp]
  have three: "validated_post_items demoEnv signInRedirect
     \<lparr>req_auth = None, req_body = badBody\<rparr> freshApp = (signInRedirect, freshApp)"
    by (simp add: validated_post_items_def)
  from one two three show ?thesis by simp
qed

text \<open>
Claim C6 as stated fails on the first request after start-up when a row has no
  owner: the body fails the schema and the answer is 400, yet the claiming middleware
  has already updated the row.
\<close>

theorem C6_claim_before_validation_counterexample:
  "status (fst (validated_post_items demoEnv signInRedirect
                  \<lparr>req_auth = Some ''alice'', req_body = badBody\<rparr> freshApp)) = 400 \<and>
   map user_id (rows (database freshApp)) = [None] \<and>
   map user_id (rows (database (snd (validated_post_items demoEnv signInRedirect
       \<lparr>req_auth = Some ''alice'', req_body = badBody\<rparr> freshApp)))) = [Some ''alice'']"
  by code_simp

subsection \<open>The fields of the records in responses\<close>

lemma digits_table:
  "\<forall>k \<in> {0..<10::nat}. isDigit (char_of (48 + k)) \<and> char_of (48 + k) \<noteq> CHR ''T''"
  by code_simp

lemma isDigit_digit: "isDigit (digit n)" and digit_not_T: "digit n \<noteq> CHR ''T''"
proof -
  have "n mod 10 \<in> {0..<10}" by simp
  with digits_table show "isDigit (digit n)" and "digit n \<noteq> CHR ''T''"
    unfolding digit_def by blast+
qed

lemma pad_2: "pad 2 n = [digit (n div 10), digit n]"
  by (simp add: numeral_2_eq_2)

lemma pad_3: "pad 3 n = [digit (n div 10 div 10), digit (n div 10), digit n]"
  by (simp add: numeral_3_eq_3)

lemma pad_4:
  "pad 4 n = [digit (n div 10 div 10 div 10), digit (n div 10 div 10), digit (n div 10), digit n]"
proof -
  have "pad 4 n = pad (Suc 3) n" by simp
  then show ?thesis by (simp only: pad.simps pad_3) simp
qed

lemma date_part_of_ISO:
  assumes "0 \<le> year d" and "year d \<le> 9999"
  shows "beforeT (toISOString d) = pad 4 (nat (year d)) @ ''-'' @ pad 2 (month d) @ ''-'' @ pad 2 (day d)"
  using assms
  by (simp add: beforeT_def toISOString_def isoYear_def pad_2 pad_4 digit_not_T)

lemma isDateText_date_part:
  assumes "0 \<le> year d" and "year d \<le> 9999"
  shows "isDateText (beforeT (toISOString d))"
  unfolding date_part_of_ISO [OF assms]
  by (simp add: isDateText_def pad_2 pad_4 isDigit_digit)

lemma keys_row_to_item: "row_to_item r = Some v \<Longrightarrow> keys_of v = item_fields"
  by (auto simp: row_to_item_def keys_of_def item_fields_def split: option.splits)

lemma dueDate_row_to_item:
  assumes "row_to_item r = Some v"
    and "\<forall>d. due_date r = Some d \<longrightarrow> 0 \<le> year d \<and> year d \<le> 9999"
  shows "property v ''dueDate'' = Some JNull \<or>
         (\<exists>s. property v ''dueDate'' = Some (JStr s) \<and> isDateText s)"
proof (cases "due_date r")
  case None
  with assms(1) show ?thesis
    by (auto simp: row_to_item_def opt_json_def split: option.splits)
next
  case (Some d)
  with assms(2) have "isDateText (beforeT (toISOString d))"
    by (simp add: isDateText_date_part)
  with Some assms(1) show ?thesis
    by (auto simp: row_to_item_def opt_json_def split: option.splits)
qed

lemma those_map_Some:
  "those (map f xs) = Some ys \<Longrightarrow> \<forall>y \<in> set ys. \<exists>x \<in> set xs. f x = Some y"
proof (induction xs arbitrary: ys)
  case Nil
  then show ?case by simp
next
  case (Cons x xs)
  from Cons.prems obtain y zs where y: "f x = Some y" and zs: "those (map f xs) = Some zs"
    and ys: "ys = y # zs"
    by (auto split: option.splits)
  from Cons.IH [OF zs] y ys show ?case by auto
qed

lemma set_order_by: "set (order_by rs) = set rs"
  by (simp add: order_by_def)

lemma get_items_fields:
  assumes "get_items uid d = json (JArr items)"
    and "\<forall>r \<in> set (rows d). \<forall>x. due_date r = Some x \<longrightarrow> 0 \<le> year x \<and> year x \<le> 9999"
    and "v \<in> set items"
  shows "keys_of v = item_fields \<and>
         (property v ''dueDate'' = Some JNull \<or>
          (\<exists>s. property v ''dueDate'' = Some (JStr s) \<and> isDateText s))"
proof -
  from assms(1) have
    "those (map row_to_item (order_by (filter (\<lambda>r. user_id r = Some uid) (rows d)))) = Some items"
    by (auto simp: get_items_def json_def status_json_def split: option.splits)
  from those_map_Some [OF this] assms(3) obtain r where
    r: "r \<in> set (rows d)" "row_to_item r = Some v"
    by (auto simp: set_order_by)
  with assms(2) keys_row_to_item [OF r(2)] dueDate_row_to_item [OF r(2)] show ?thesis
    by blast
qed

lemma keys_raw_row_json:
  "keys_of (raw_row_json r) =
     [''id'', ''text'', ''completed'', ''created_at'', ''type'', ''category'', ''priority'',
      ''due_date'', ''notes'', ''sort_order'', ''user_id'']"
  by (simp add: raw_row_json_def keys_of_def)

lemma keys_rowToItem: "keys_of (rowToItem r) = item_fields"
  by (simp add: rowToItem_def keys_of_def item_fields_def)

text \<open>
Claim C1 fails on the create and update routes of server.js: they answer with the row
  as the statement returned it, under the column names \<open>created_at\<close>, \<open>due_date\<close>,
  \<open>sort_order\<close> and with \<open>user_id\<close>, the id as text, and the due date written by
  \<open>toISOString\<close> with its time component. The GET route of the same file and
  \<open>rowToItem\<close> of the drizzle variant produce the fields of the data model
  (\<open>get_items_fields\<close>, \<open>keys_rowToItem\<close>). The theorem evaluates both routes on a
  request.
\<close>

theorem C1_raw_rows_in_responses:
  "rbody (fst (post_items demoEnv ''alice'' (demoItemJson 7 3) emptyDb)) =
     JArr [JObj [(''id'', JStr ''7''), (''text'', JStr ''buy milk''),
                 (''completed'', JBool False),
                 (''created_at'', JStr ''2026-02-17T09:30:00.000Z''),
                 (''type'', JStr ''task''), (''category'', JStr ''personal''),
                 (''priority'', JStr ''high''),
                 (''due_date'', JStr ''2026-02-18T00:00:00.000Z''),
                 (''notes'', JStr ''''), (''sort_order'', JNum 3),
                 (''user_id'', JStr ''alice'')]] \<and>
   map_option (\<lambda>x. keys_of (rbody (fst x)))
     (put_item demoEnv ''alice'' ''1'' (demoItemJson 1 5) demoDb) =
     Some [''id'', ''text'', ''completed'', ''created_at'', ''type'', ''category'',
           ''priority'', ''due_date'', ''notes'', ''sort_order'', ''user_id''] \<and>
   [''id'', ''text'', ''completed'', ''created_at'', ''type'', ''category'',
    ''priority'', ''due_date'', ''notes'', ''sort_order'', ''user_id''] \<noteq> item_fields \<and>
   \<not> isDateText ''2026-02-18T00:00:00.000Z''"
  by code_simp


end
